theory Spec2Isabelle
  imports Complex_Main "HOL-Library.AList"
begin

section \<open>Values of the host language\<close>

text \<open>
  A value of JavaScript's Number type is a finite number or NaN (the two infinities are
  not modelled; finite doubles are read as the reals they denote).  Where the code tells
  \<open>undefined\<close> from \<open>null\<close> a field has type \<open>'a js\<close>; where it treats both alike
  (\<open>??\<close>, \<open>!= null\<close>, \<open>||\<close>) the field is an \<open>option\<close> and \<open>None\<close> stands for either.
\<close>

datatype jsnum = JNum real | JNaN

datatype 'a js = Undefined | Null | Val 'a


text \<open>
  A cell of a source row or a facility identifier: a string, or a non-negative integer
  number (other numbers do not occur as identifiers).
\<close>

datatype cell = CStr string | CNum nat

text \<open>
  The metrics of one year: an object from metric key to number.  An association list
  denotes the object \<open>map_of\<close> of it, whose keys are the distinct first components.
\<close>

type_synonym year_metrics = "(string \<times> real) list"

subsection \<open>Strings\<close>

text \<open>
  The text functions of the host work on Unicode text: \<open>toUpperCase\<close> and \<open>toLowerCase\<close>
  apply the case mappings of every script, and \<open>trim\<close> strips every white space and line
  terminator of Unicode, the no-break space among them.  They are taken as given, and so
  are the host's conversion of text to a number (\<open>Number(s)\<close>), the two pattern matches of
  \<open>parseLocation\<close>, and \<open>norm\<close> (utils/strings.js).
\<close>

record host =
  toUpperCase :: "string \<Rightarrow> string"
  toLowerCase :: "string \<Rightarrow> string"
  trim :: "string \<Rightarrow> string"
  Number_of :: "string \<Rightarrow> jsnum"
  pointMatch :: "string \<Rightarrow> (string \<times> string) option"
  csvMatch :: "string \<Rightarrow> (string \<times> string) option"
  norm :: "string \<Rightarrow> string"

definition padStart :: "nat \<Rightarrow> char \<Rightarrow> string \<Rightarrow> string" where
  \<comment> \<open>\<open>s.padStart(n, c)\<close> for a one-character filler\<close>
  "padStart n c s = replicate (n - length s) c @ s"

fun string_of_nat :: "nat \<Rightarrow> string" where
  "string_of_nat n =
     (if n < 10 then [''0123456789'' ! n]
      else string_of_nat (n div 10) @ [''0123456789'' ! (n mod 10)])"

declare string_of_nat.simps [simp del]

fun String :: "cell \<Rightarrow> string" where
  "String (CStr s) = s"
| "String (CNum n) = string_of_nat n"

subsection \<open>Truthiness and the operators built on it\<close>

fun truthy_cell :: "cell option \<Rightarrow> bool" where
  "truthy_cell None = False"
| "truthy_cell (Some (CStr s)) = (s \<noteq> [])"
| "truthy_cell (Some (CNum n)) = (n \<noteq> 0)"

fun truthy_str :: "string option \<Rightarrow> bool" where
  "truthy_str None = False"
| "truthy_str (Some s) = (s \<noteq> [])"

definition or_cell :: "cell option \<Rightarrow> cell option \<Rightarrow> cell option" where
  \<comment> \<open>\<open>a || b\<close>\<close>
  "or_cell a b = (if truthy_cell a then a else b)"

definition or_str :: "string option \<Rightarrow> string option \<Rightarrow> string option" where
  \<comment> \<open>\<open>a || b\<close>\<close>
  "or_str a b = (if truthy_str a then a else b)"

definition nullish :: "'a option \<Rightarrow> 'a option \<Rightarrow> 'a option" where
  \<comment> \<open>\<open>a ?? b\<close>\<close>
  "nullish a b = (case a of Some v \<Rightarrow> Some v | None \<Rightarrow> b)"

fun isNaN :: "jsnum js \<Rightarrow> bool" where
  \<comment> \<open>the global \<open>isNaN\<close>: \<open>null\<close> converts to 0, \<open>undefined\<close> to NaN\<close>
  "isNaN Undefined = True"
| "isNaN Null = False"
| "isNaN (Val JNaN) = True"
| "isNaN (Val (JNum _)) = False"

fun parseFloat :: "jsnum js \<Rightarrow> jsnum" where
  \<comment> \<open>on a number, \<open>parseFloat\<close> reads back its own printed form; \<open>"undefined"\<close> and
      \<open>"null"\<close> do not parse\<close>
  "parseFloat (Val n) = n"
| "parseFloat _ = JNaN"

fun js_le :: "jsnum \<Rightarrow> jsnum js \<Rightarrow> bool" where
  \<comment> \<open>\<open>a <= b\<close> for a number \<open>a\<close>: false as soon as one side converts to NaN\<close>
  "js_le (JNum a) (Val (JNum b)) = (a \<le> b)"
| "js_le (JNum a) Null = (a \<le> 0)"
| "js_le _ _ = False"

fun js_sub :: "jsnum \<Rightarrow> jsnum \<Rightarrow> jsnum" where
  "js_sub (JNum a) (JNum b) = JNum (a - b)"
| "js_sub _ _ = JNaN"


section \<open>Data of the backend\<close>

datatype cms_endpoint = mobility | discharge | falls | hai

datatype error =
    HospitalNameRequired
  | HospitalNotFound
  | GeocodingFailed
  | NetworkError
  | CmsFetchFailed cms_endpoint
  | ApiKeyRequired
  | PlaceIdRequired
  | FindPlaceHttp
  | PlacesApiHttp
  | PlacesApiError
  | StoreError


text \<open>
  A hospital record.  \<open>Latitude\<close> and \<open>Longitude\<close> are the capitalised properties that
  \<open>performAnalysis\<close> reads; \<open>h_latitude\<close> and \<open>h_longitude\<close> are the properties
  \<open>latitude\<close> and \<open>longitude\<close> that the hospitals loader writes and that
  \<open>performAnalysis\<close> assigns after geocoding.
\<close>

record hospital =
  hospital_name :: string
  h_address :: string
  h_city :: string
  h_state :: string
  h_zip_code :: string
  Latitude :: "jsnum js"
  Longitude :: "jsnum js"
  h_latitude :: "jsnum js"
  h_longitude :: "jsnum js"

record facility =
  facility_name :: "string option"
  address :: "string option"
  city :: "string option"
  state :: "string option"
  zip_code :: "string option"
  latitude :: "jsnum js"
  longitude :: "jsnum js"
  Composite_Score :: "real option"
  overall_rating :: "real option"
  Overall_Rating :: "real option"
  CMS_Certification_Number_CCN :: "cell option"
  CCN :: "cell option"
  provider_id :: "cell option"
  federal_provider_number :: "cell option"
  provider_number :: "cell option"
  google_place_id :: "string option"
  google_placeid :: "string option"
  place_id :: "string option"
  googlePlaceId :: "string option"

text \<open>A facility after \<open>.map((f) => ({...f, distance: haversine(...)}))\<close>.\<close>

record dfacility = facility +
  distance :: jsnum

text \<open>One facility's historical quality timeline, as the historical loader builds it.\<close>

record timeline =
  tl_ccn :: string
  tl_facility_name :: string
  tl_address :: string
  tl_city :: string
  tl_state :: string
  tl_zip_code :: string
  tl_county_name :: string
  tl_phone_number :: string
  years :: "(nat \<times> year_metrics) list"

record citation_summary =
  total :: nat
  immediateJeopardy :: nat
  actualHarm :: nat
  potentialHarm :: nat
  minimalHarm :: nat
  infectionControl :: nat

record penalty_summary =
  penalties_count :: nat
  finesCount :: nat
  finesTotal :: real
  paymentDenials :: nat

record regulatory =
  reg_ccn :: string
  citations :: "(nat \<times> citation_summary) list"
  penalties :: "(nat \<times> penalty_summary) list"

record seed_entry =
  seed_google_place_id :: "string option"
  seed_google_name :: "string option"

record quality =
  Mobility_at_Discharge :: "real option"
  Discharge_to_Community_Rate :: "real option"
  Fall_with_Major_Injury_Rate :: "real option"
  Healthcare_Associated_Infection_Rate :: "real option"

text \<open>An entry of the place-id cache, and what \<open>getPlaceId\<close> hands back.\<close>

record place_entry =
  pe_place_id :: "string option"
  pe_name :: "string option"
  pe_formatted_address :: "string option"
  pe_location :: "(real \<times> real) option"
  resolved_at :: "int option"

datatype place_source = FromSeed | FromCache | Fresh

record resolved_place = place_entry +
  source :: "place_source option"

record review =
  rating :: "real option"
  relative_time_description :: "string option"
  text_of :: "string option"

text \<open>
  A review snapshot.  \<open>recent_reviews\<close> holds the (at most five) reviews that
  \<open>formatReviews\<close> renders; their rendering as text is not modelled.
\<close>

record snapshot =
  snap_google_place_id :: "string option"
  snap_google_name :: "string option"
  google_rating :: "real option"
  google_rating_count :: "real option"
  recent_reviews :: "review list"
  recent_review_count :: nat
  recent_avg_rating :: "real option"
  fetched_at :: "int option"

text \<open>
  What \<open>historicalRegulatory[ccn]\<close> reads: the timeline stored under the identifier, or,
  for an identifier that names a member of \<open>Object.prototype\<close>, that member.
\<close>

datatype regulatory_value = Timeline regulatory | Inherited string

record enriched =
  base :: dfacility
  Local_Rank :: nat
  quality_metrics :: "quality option"
  historical_metrics :: "(nat \<times> year_metrics) list"
  historical_years_available :: nat
  regulatory_history :: "regulatory_value option"
  review_enrichment :: "snapshot option"

record hospital_summary =
  hs_name :: string
  hs_city :: string
  hs_state :: string
  hs_latitude :: "jsnum js"
  hs_longitude :: "jsnum js"

record analysis =
  hospital_of :: hospital_summary
  facilities :: "enriched list"
  totalWithinRadius :: nat


section \<open>Collaborators and shared state\<close>

record geo_request =
  g_name :: string
  g_address :: string
  g_city :: string
  g_state :: string
  g_zip :: string

record geo =
  lat :: "jsnum js"
  lon :: "jsnum js"

text \<open>What the HTTP layer answers: \<open>res.ok\<close> and the parsed JSON body.\<close>

record cms_response =
  cms_ok :: bool
  cms_data :: "year_metrics list"

record findplace_candidate =
  c_place_id :: "string option"
  c_name :: "string option"
  c_formatted_address :: "string option"
  c_location :: "(real \<times> real) option"

record findplace_response =
  fp_ok :: bool
  fp_status :: string
  fp_candidates :: "findplace_candidate list"

record place_details =
  d_name :: "string option"
  d_rating :: "real option"
  user_ratings_total :: "real option"
  reviews :: "review list option"

record details_response =
  dt_ok :: bool
  dt_status :: string
  dt_result :: place_details

text \<open>
  How a call of the database client settles: it rejects, or it answers.  The error of a
  rejection carries no \<open>status\<close>.
\<close>

datatype 'a settled = Rejected | Fulfilled 'a

text \<open>
  A row of the table behind the review cache: the snapshot as it was written, and the
  time stamp kept beside it.
\<close>

record snapshot_record =
  sr_snapshot :: snapshot
  sr_fetched_at :: "int option"

text \<open>
  The outside world of one request.  \<open>runtime\<close> is the host; \<open>haversine\<close>
  (utils/distance.js) and the collation behind \<open>localeCompare\<close> are taken as given;
  \<open>geocodeHospitalAddress\<close> is the geocoding collaborator (\<open>None\<close> when it throws, which
  it does once its providers are exhausted); the three \<open>fetch\<close> fields answer the HTTP
  requests of the metrics, find-place and place-details clients (\<open>Inl\<close> when \<open>fetch\<close>
  itself rejects); the \<open>findUnique\<close> and \<open>upsert\<close> fields are the database client behind
  the two enrichment caches (\<open>Fulfilled None\<close> when no row has the key); \<open>now\<close> is
  \<open>Date.now()\<close>.
\<close>

record env =
  runtime :: host
  haversine :: "jsnum js \<times> jsnum js \<Rightarrow> jsnum js \<times> jsnum js \<Rightarrow> jsnum"
  localeCompare :: "string \<Rightarrow> string \<Rightarrow> jsnum"
  geocodeHospitalAddress :: "geo_request \<Rightarrow> geo option"
  cms_fetch :: "cms_endpoint \<Rightarrow> cell option \<Rightarrow> error + cms_response"
  findplace_fetch :: "string \<Rightarrow> (real \<times> real) option \<Rightarrow> error + findplace_response"
  details_fetch :: "string \<Rightarrow> error + details_response"
  place_findUnique :: "string \<Rightarrow> place_entry option settled"
  place_upsert :: "string \<Rightarrow> place_entry \<Rightarrow> unit settled"
  review_findUnique :: "string \<Rightarrow> snapshot_record option settled"
  review_upsert :: "string \<Rightarrow> snapshot_record \<Rightarrow> unit settled"
  now :: int

text \<open>
  The state that outlives a request: the loaded hospital array (whose elements
  \<open>performAnalysis\<close> mutates), the memory layers of the two enrichment caches (the
  variable \<open>cache\<close> of \<open>createPlaceIdCache\<close> and of \<open>createReviewCache\<close>), and a log of
  the calls made to the geocoder.  A key of the review cache that names a member of
  \<open>Object.prototype\<close> is not modelled.
\<close>

record world =
  hospitals :: "hospital list"
  placeIdCache :: "string \<rightharpoonup> place_entry"
  reviewCache :: "string \<rightharpoonup> snapshot"
  geocode_calls :: "geo_request list"

record place_resolver =
  pr_apiKey :: "string option"
  pr_maxAgeMs :: int
  seedPlaceIds :: "string \<rightharpoonup> seed_entry"

record reviews_service =
  rs_apiKey :: "string option"
  rs_maxAgeMs :: int

text \<open>
  \<open>options.limit\<close>: a number, or one of the falsy non-numbers.  Truthy values that are
  not numbers are not modelled.
\<close>

datatype limit_arg = LimNum jsnum | LimEmptyString | LimFalse

record analysis_options =
  mode :: "string option"
  radiusMiles :: "jsnum js"
  limit :: "limit_arg js"
  sortBy :: "string option"
  order :: "string option"

record analysis_args =
  hospitalName :: string
  snfs :: "facility list"
  historicalSnfTimelines :: "string \<rightharpoonup> timeline"
  historicalRegulatory :: "string \<rightharpoonup> regulatory"
  googleReviewsService :: "reviews_service option"
  googlePlaceIds :: "string \<rightharpoonup> seed_entry"
  googlePlaceResolver :: "place_resolver option"
  options :: analysis_options


section \<open>Ranking and analysis engine (analyzeService.js)\<close>

definition DEFAULT_RADIUS_MILES :: real where
  "DEFAULT_RADIUS_MILES = 50"

definition DEFAULT_LIMIT :: real where
  "DEFAULT_LIMIT = 5"

subsection \<open>Resolving the hospital\<close>

definition name_matches :: "host \<Rightarrow> string \<Rightarrow> hospital \<Rightarrow> bool" where
  \<comment> \<open>\<open>h.hospital_name.toUpperCase().trim() === hospitalName.toUpperCase().trim()\<close>\<close>
  "name_matches rt name h =
     (trim rt (toUpperCase rt (hospital_name h)) = trim rt (toUpperCase rt name))"

definition find_hospital :: "host \<Rightarrow> hospital list \<Rightarrow> string \<Rightarrow> hospital option" where
  "find_hospital rt hs name = List.find (name_matches rt name) hs"

fun update_first :: "('a \<Rightarrow> bool) \<Rightarrow> ('a \<Rightarrow> 'a) \<Rightarrow> 'a list \<Rightarrow> 'a list" where
  \<comment> \<open>a mutation of the element that \<open>find\<close> returned\<close>
  "update_first P f [] = []"
| "update_first P f (x # xs) = (if P x then f x # xs else x # update_first P f xs)"

definition geocode_request :: "hospital \<Rightarrow> geo_request" where
  \<comment> \<open>the argument of \<open>geocodeHospitalAddress\<close>\<close>
  "geocode_request hospital =
     \<lparr>g_name = hospital_name hospital, g_address = h_address hospital,
      g_city = h_city hospital, g_state = h_state hospital, g_zip = h_zip_code hospital\<rparr>"

definition hospital_coordinates ::
  "env \<Rightarrow> string \<Rightarrow> hospital \<Rightarrow> world \<Rightarrow> (error + jsnum js \<times> jsnum js) \<times> world" where
  "hospital_coordinates e name hospital w =
     (let hLat = parseFloat (Latitude hospital);
          hLon = parseFloat (Longitude hospital)
      in if hLat = JNaN \<or> hLon = JNaN then
           (let w1 = w\<lparr>geocode_calls := geocode_calls w @ [geocode_request hospital]\<rparr>
            in case geocodeHospitalAddress e (geocode_request hospital) of
                 None \<Rightarrow> (Inl GeocodingFailed, w1)
               | Some g \<Rightarrow>
                   (Inr (lat g, lon g),
                    w1\<lparr>hospitals :=
                         update_first (name_matches (runtime e) name)
                           (\<lambda>h. h\<lparr>h_latitude := lat g, h_longitude := lon g\<rparr>)
                           (hospitals w1)\<rparr>))
         else (Inr (Val hLat, Val hLon), w))"

subsection \<open>Distances and the radius filter\<close>

definition with_distance :: "facility \<Rightarrow> jsnum \<Rightarrow> dfacility" where
  \<comment> \<open>\<open>{...f, distance: d}\<close>\<close>
  "with_distance f d = facility.extend f (dfacility.fields d)"

definition resolved_radius :: "jsnum js \<Rightarrow> jsnum js" where
  \<comment> \<open>the destructuring default \<open>radiusMiles = DEFAULT_RADIUS_MILES\<close>\<close>
  "resolved_radius r = (case r of Undefined \<Rightarrow> Val (JNum DEFAULT_RADIUS_MILES) | _ \<Rightarrow> r)"

definition withDistance ::
  "env \<Rightarrow> jsnum js \<times> jsnum js \<Rightarrow> jsnum js \<Rightarrow> facility list \<Rightarrow> dfacility list" where
  "withDistance e h radius fs =
     filter (\<lambda>f. js_le (distance f) radius)
       (map (\<lambda>f. with_distance f (haversine e h (latitude f, longitude f)))
          (filter (\<lambda>f. \<not> isNaN (latitude f) \<and> \<not> isNaN (longitude f)) fs))"

subsection \<open>Sorting\<close>

definition str_or_empty :: "string option \<Rightarrow> string" where
  \<comment> \<open>\<open>(s || "")\<close>\<close>
  "str_or_empty s = (case s of None \<Rightarrow> [] | Some v \<Rightarrow> v)"

definition resolvedSortBy :: "host \<Rightarrow> analysis_options \<Rightarrow> string" where
  "resolvedSortBy rt opts =
     (let s = toLowerCase rt (str_or_empty (sortBy opts))
      in if s \<noteq> [] then s
         else if mode opts = Some ''best'' then ''composite'' else ''distance'')"

definition resolvedOrder :: "host \<Rightarrow> analysis_options \<Rightarrow> string" where
  "resolvedOrder rt opts =
     (let defaultOrder = (if resolvedSortBy rt opts = ''distance'' then ''asc'' else ''desc'');
          ord = toLowerCase rt (str_or_empty (order opts))
      in if ord = ''asc'' \<or> ord = ''desc'' then ord else defaultOrder)"

datatype sortval = SNum jsnum | SStr string

definition valueFor :: "host \<Rightarrow> string \<Rightarrow> dfacility \<Rightarrow> sortval option" where
  "valueFor rt key f =
     (if key = ''rating'' \<or> key = ''overall_rating'' then
        map_option (\<lambda>v. SNum (JNum v)) (nullish (overall_rating f) (Overall_Rating f))
      else if key = ''composite'' \<or> key = ''composite_score'' then
        map_option (\<lambda>v. SNum (JNum v)) (Composite_Score f)
      else if key = ''distance'' then Some (SNum (distance f))
      else if key = ''name'' then Some (SStr (toLowerCase rt (str_or_empty (facility_name f))))
      else None)"

text \<open>
  The two values of one comparison come from the same key, so they are both strings or
  both numbers; the mixed cases below are never reached.
\<close>

fun is_string :: "sortval \<Rightarrow> bool" where
  "is_string (SStr _) = True"
| "is_string (SNum _) = False"

fun locale_cmp :: "(string \<Rightarrow> string \<Rightarrow> jsnum) \<Rightarrow> sortval \<Rightarrow> sortval \<Rightarrow> jsnum" where
  "locale_cmp lc (SStr a) (SStr b) = lc a b"
| "locale_cmp lc _ _ = JNaN"

fun num_sub :: "sortval \<Rightarrow> sortval \<Rightarrow> jsnum" where
  "num_sub (SNum a) (SNum b) = js_sub a b"
| "num_sub _ _ = JNaN"

definition compareFacilities ::
  "host \<Rightarrow> (string \<Rightarrow> string \<Rightarrow> jsnum) \<Rightarrow> string \<Rightarrow> string \<Rightarrow> dfacility \<Rightarrow> dfacility
     \<Rightarrow> jsnum" where
  "compareFacilities rt lc key ord a b =
     (case (valueFor rt key a, valueFor rt key b) of
        (None, None) \<Rightarrow> JNum 0
      | (None, Some _) \<Rightarrow> JNum 1
      | (Some _, None) \<Rightarrow> JNum (- 1)
      | (Some valA, Some valB) \<Rightarrow>
          (let isAscending = (ord = ''asc'')
           in if is_string valA \<or> is_string valB then
                (if isAscending then locale_cmp lc valA valB else locale_cmp lc valB valA)
              else (if isAscending then num_sub valA valB else num_sub valB valA)))"

text \<open>
  \<open>Array.prototype.sort\<close> is stable, reads a NaN from the comparator as 0, and for a
  consistent comparator returns the sorted arrangement, which stability makes unique.
  It is modelled by straight insertion, which computes that arrangement.
\<close>

definition not_after :: "('a \<Rightarrow> 'a \<Rightarrow> jsnum) \<Rightarrow> 'a \<Rightarrow> 'a \<Rightarrow> bool" where
  "not_after cmp x y = (case cmp x y of JNum v \<Rightarrow> v \<le> 0 | JNaN \<Rightarrow> True)"

fun insert_by :: "('a \<Rightarrow> 'a \<Rightarrow> jsnum) \<Rightarrow> 'a \<Rightarrow> 'a list \<Rightarrow> 'a list" where
  "insert_by cmp x [] = [x]"
| "insert_by cmp x (y # ys) =
     (if not_after cmp x y then x # y # ys else y # insert_by cmp x ys)"

definition js_sort :: "('a \<Rightarrow> 'a \<Rightarrow> jsnum) \<Rightarrow> 'a list \<Rightarrow> 'a list" where
  "js_sort cmp xs = foldr (insert_by cmp) xs []"

definition ranked ::
  "env \<Rightarrow> analysis_options \<Rightarrow> dfacility list \<Rightarrow> dfacility list" where
  "ranked e opts wd =
     js_sort (compareFacilities (runtime e) (localeCompare e) (resolvedSortBy (runtime e) opts)
                (resolvedOrder (runtime e) opts)) wd"

subsection \<open>Truncation to the limit\<close>

definition truncate_toward_zero :: "real \<Rightarrow> int" where
  "truncate_toward_zero r = (if 0 \<le> r then \<lfloor>r\<rfloor> else \<lceil>r\<rceil>)"

definition slice0 :: "'a list \<Rightarrow> real \<Rightarrow> 'a list" where
  \<comment> \<open>\<open>xs.slice(0, end)\<close> for a finite number \<open>end\<close>\<close>
  "slice0 xs end =
     (let len = int (length xs);
          relativeEnd = truncate_toward_zero end;
          final = (if relativeEnd < 0 then max (len + relativeEnd) 0 else min relativeEnd len)
      in take (nat final) xs)"

definition destructured_limit :: "limit_arg js \<Rightarrow> limit_arg js" where
  \<comment> \<open>the destructuring default \<open>limit = DEFAULT_LIMIT\<close>\<close>
  "destructured_limit l = (case l of Undefined \<Rightarrow> Val (LimNum (JNum DEFAULT_LIMIT)) | _ \<Rightarrow> l)"

fun limit_or_default :: "limit_arg js \<Rightarrow> real" where
  \<comment> \<open>\<open>limit || DEFAULT_LIMIT\<close>\<close>
  "limit_or_default (Val (LimNum (JNum r))) = (if r = 0 then DEFAULT_LIMIT else r)"
| "limit_or_default _ = DEFAULT_LIMIT"

definition topFacilities :: "analysis_options \<Rightarrow> dfacility list \<Rightarrow> dfacility list" where
  "topFacilities opts rs = slice0 rs (limit_or_default (destructured_limit (limit opts)))"


subsection \<open>Live quality metrics (cmsMetrics.js)\<close>

definition fetchCMSMetric ::
  "env \<Rightarrow> cell option \<Rightarrow> cms_endpoint \<Rightarrow> error + year_metrics option" where
  "fetchCMSMetric e ccn metric =
     (case cms_fetch e metric ccn of
        Inl err \<Rightarrow> Inl err
      | Inr res \<Rightarrow>
          if \<not> cms_ok res then Inl (CmsFetchFailed metric)
          else Inr (case cms_data res of [] \<Rightarrow> None | row # _ \<Rightarrow> Some row))"

definition settled_field :: "error + year_metrics option \<Rightarrow> string \<Rightarrow> real option" where
  \<comment> \<open>\<open>settled.value?.field ?? null\<close> on a result of \<open>Promise.allSettled\<close>\<close>
  "settled_field r k =
     (case r of Inl _ \<Rightarrow> None | Inr None \<Rightarrow> None | Inr (Some row) \<Rightarrow> map_of row k)"

definition fetchQualityMetrics :: "env \<Rightarrow> cell option \<Rightarrow> error + quality" where
  "fetchQualityMetrics e ccn =
     (let mob = fetchCMSMetric e ccn mobility;
          dis = fetchCMSMetric e ccn discharge;
          fall = fetchCMSMetric e ccn falls;
          inf = fetchCMSMetric e ccn hai
      in Inr \<lparr>Mobility_at_Discharge = settled_field mob ''mobility_percent'',
              Discharge_to_Community_Rate = settled_field dis ''discharge_to_community_percent'',
              Fall_with_Major_Injury_Rate = settled_field fall ''fall_with_major_injury_percent'',
              Healthcare_Associated_Infection_Rate = settled_field inf ''hai_percent''\<rparr>)"

subsection \<open>Facility identifiers\<close>

definition normalize_ccn :: "cell option \<Rightarrow> string option" where
  \<comment> \<open>\<open>ccn ? String(ccn).padStart(6, "0") : null\<close>\<close>
  "normalize_ccn ccn =
     (case ccn of
        None \<Rightarrow> None
      | Some c \<Rightarrow> if truthy_cell ccn then Some (padStart 6 CHR ''0'' (String c)) else None)"

definition property_key :: "cell option \<Rightarrow> string" where
  \<comment> \<open>the property name that \<open>obj[ccn]\<close> reads for a truthy \<open>ccn\<close>\<close>
  "property_key ccn = (case ccn of None \<Rightarrow> ''undefined'' | Some c \<Rightarrow> String c)"

definition facility_ccn :: "dfacility \<Rightarrow> cell option" where
  "facility_ccn f =
     or_cell (or_cell (or_cell (CMS_Certification_Number_CCN f) (CCN f)) (provider_id f))
       (federal_provider_number f)"

subsection \<open>Place-id resolver (googlePlaceResolverService.js, googlePlacesSearchClient.js)\<close>

fun join :: "string \<Rightarrow> string list \<Rightarrow> string" where
  "join sep [] = []"
| "join sep [x] = x"
| "join sep (x # y # ys) = x @ sep @ join sep (y # ys)"

definition normalizeKeyParts :: "host \<Rightarrow> string option list \<Rightarrow> string" where
  "normalizeKeyParts rt parts =
     join ''|''
       (filter (\<lambda>p. p \<noteq> [])
          (map (\<lambda>p. trim rt (toLowerCase rt (str_or_empty p))) (filter truthy_str parts)))"

definition buildQuery :: "dfacility \<Rightarrow> string option" where
  "buildQuery f =
     (let pieces = join '', ''
            (map str_or_empty
               (filter truthy_str [facility_name f, address f, city f, state f, zip_code f]))
      in or_str (or_str (Some pieces) (facility_name f)) None)"

definition buildLocationBias :: "dfacility \<Rightarrow> (real \<times> real) option" where
  \<comment> \<open>the pair stands for the text \<open>point:lat,lon\<close>\<close>
  "buildLocationBias f =
     (case (latitude f, longitude f) of
        (Val (JNum a), Val (JNum b)) \<Rightarrow> Some (a, b)
      | _ \<Rightarrow> None)"

definition keyForFacility :: "host \<Rightarrow> dfacility \<Rightarrow> string" where
  "keyForFacility rt f =
     (let ccn = or_cell (or_cell (or_cell (CCN f) (provider_id f)) (federal_provider_number f))
                  (provider_number f)
      in case normalize_ccn ccn of
           Some normalizedCcn \<Rightarrow> ''ccn:'' @ normalizedCcn
         | None \<Rightarrow> ''name:'' @ normalizeKeyParts rt
                     [facility_name f, address f, city f, state f, zip_code f])"

text \<open>
  The two caches (googlePlaceIdCache.js, googleReviewsCache.js) keep a memory layer in
  front of the database; \<open>get\<close> and \<open>set\<close> are the same in both, up to the function that
  reads or writes the row.  A rejected read or write rejects the call; \<open>set\<close> has
  written the memory layer by then.
\<close>

definition cache_get ::
  "(string \<Rightarrow> error + 'a option) \<Rightarrow> (string \<rightharpoonup> 'a) \<Rightarrow> string
     \<Rightarrow> (error + 'a option) \<times> (string \<rightharpoonup> 'a)" where
  "cache_get read cache key =
     (if key = [] then (Inr None, cache)
      else case cache key of
             Some entry \<Rightarrow> (Inr (Some entry), cache)
           | None \<Rightarrow>
               (case read key of
                  Inl err \<Rightarrow> (Inl err, cache)
                | Inr None \<Rightarrow> (Inr None, cache)
                | Inr (Some stored) \<Rightarrow> (Inr (Some stored), cache(key \<mapsto> stored))))"

definition cache_set ::
  "(string \<Rightarrow> 'a \<Rightarrow> error + unit) \<Rightarrow> (string \<rightharpoonup> 'a) \<Rightarrow> string \<Rightarrow> 'a
     \<Rightarrow> (error + unit) \<times> (string \<rightharpoonup> 'a)" where
  "cache_set write cache key payload =
     (if key = [] then (Inr (), cache)
      else (write key payload, cache(key \<mapsto> payload)))"

definition truthy_time :: "int option \<Rightarrow> bool" where
  "truthy_time t = (case t of None \<Rightarrow> False | Some v \<Rightarrow> v \<noteq> 0)"

definition readCacheRecord :: "env \<Rightarrow> string \<Rightarrow> error + place_entry option" where
  "readCacheRecord e key =
     (if key = [] then Inr None
      else case place_findUnique e key of
             Rejected \<Rightarrow> Inl StoreError
           | Fulfilled None \<Rightarrow> Inr None
           | Fulfilled (Some stored) \<Rightarrow>
               Inr (Some \<lparr>pe_place_id = or_str (pe_place_id stored) None,
                          pe_name = or_str (pe_name stored) None,
                          pe_formatted_address = or_str (pe_formatted_address stored) None,
                          pe_location = pe_location stored,
                          resolved_at = (if truthy_time (resolved_at stored)
                                         then resolved_at stored else None)\<rparr>))"

definition writeCacheRecord :: "env \<Rightarrow> string \<Rightarrow> place_entry \<Rightarrow> error + unit" where
  "writeCacheRecord e key payload =
     (if key = [] then Inr ()
      else case place_upsert e key
                  \<lparr>pe_place_id = or_str (pe_place_id payload) None,
                   pe_name = or_str (pe_name payload) None,
                   pe_formatted_address = or_str (pe_formatted_address payload) None,
                   pe_location = pe_location payload,
                   resolved_at = (if truthy_time (resolved_at payload)
                                  then resolved_at payload else Some (now e))\<rparr> of
             Rejected \<Rightarrow> Inl StoreError
           | Fulfilled _ \<Rightarrow> Inr ())"

definition isFresh :: "env \<Rightarrow> place_resolver \<Rightarrow> place_entry \<Rightarrow> bool" where
  "isFresh e r entry =
     (case resolved_at entry of
        None \<Rightarrow> False
      | Some t \<Rightarrow> if t = 0 then False else now e - t < pr_maxAgeMs r)"

definition findPlaceId ::
  "env \<Rightarrow> string option \<Rightarrow> (real \<times> real) option \<Rightarrow> string option
     \<Rightarrow> error + findplace_candidate option" where
  "findPlaceId e query locationBias apiKey =
     (if \<not> truthy_str apiKey then Inl ApiKeyRequired
      else if \<not> truthy_str query then Inr None
      else case findplace_fetch e (str_or_empty query) locationBias of
             Inl err \<Rightarrow> Inl err
           | Inr res \<Rightarrow>
               if \<not> fp_ok res then Inl FindPlaceHttp
               else if fp_status res \<noteq> ''OK'' \<or> fp_candidates res = [] then Inr None
               else Inr (Some (hd (fp_candidates res))))"

definition with_source :: "place_entry \<Rightarrow> place_source option \<Rightarrow> resolved_place" where
  \<comment> \<open>\<open>{...entry, source}\<close>; \<open>None\<close> when the entry is handed back as it is\<close>
  "with_source entry src = place_entry.extend entry (resolved_place.fields src)"

text \<open>
  \<open>getPlaceId\<close> reads the cache before its \<open>try\<close> block: a rejected read rejects
  \<open>getPlaceId\<close>.  The find-place call and the write of the cache are inside the block,
  and a failure of either hands back the cache entry that was read, or \<open>null\<close>.
\<close>

definition getPlaceId ::
  "env \<Rightarrow> place_resolver \<Rightarrow> (string \<rightharpoonup> place_entry) \<Rightarrow> dfacility
     \<Rightarrow> (error + resolved_place option) \<times> (string \<rightharpoonup> place_entry)" where
  "getPlaceId e r cache f =
     (let ccnKey = or_cell (or_cell (CCN f) (provider_id f)) (federal_provider_number f);
          seed = (case normalize_ccn ccnKey of
                    None \<Rightarrow> None
                  | Some normalizedCcn \<Rightarrow> seedPlaceIds r normalizedCcn);
          seedId = (case seed of None \<Rightarrow> None | Some s \<Rightarrow> seed_google_place_id s);
          seedName = (case seed of None \<Rightarrow> None | Some s \<Rightarrow> seed_google_name s)
      in if truthy_str seedId then
           (Inr (Some (with_source
               \<lparr>pe_place_id = seedId, pe_name = or_str seedName None,
                pe_formatted_address = None, pe_location = None, resolved_at = None\<rparr>
               (Some FromSeed))), cache)
         else
           (let cacheKey = keyForFacility (runtime e) f
            in case cache_get (readCacheRecord e) cache cacheKey of
                 (Inl err, cache1) \<Rightarrow> (Inl err, cache1)
               | (Inr cached, cache1) \<Rightarrow>
                   (let stale = map_option (\<lambda>c. with_source c None) cached
                    in if (case cached of None \<Rightarrow> False | Some c \<Rightarrow> isFresh e r c) then
                         (Inr (map_option (\<lambda>c. with_source c (Some FromCache)) cached), cache1)
                       else if \<not> truthy_str (pr_apiKey r) then (Inr stale, cache1)
                       else
                         (case findPlaceId e (buildQuery f) (buildLocationBias f) (pr_apiKey r) of
                            Inl err \<Rightarrow> (Inr stale, cache1)
                          | Inr None \<Rightarrow> (Inr stale, cache1)
                          | Inr (Some found) \<Rightarrow>
                              (let payload =
                                     \<lparr>pe_place_id = c_place_id found,
                                      pe_name = or_str (c_name found) None,
                                      pe_formatted_address =
                                        or_str (c_formatted_address found) None,
                                      pe_location = c_location found,
                                      resolved_at = Some (now e)\<rparr>
                               in case cache_set (writeCacheRecord e) cache1 cacheKey payload of
                                    (Inl err, cache2) \<Rightarrow> (Inr stale, cache2)
                                  | (Inr _, cache2) \<Rightarrow>
                                      (Inr (Some (with_source payload (Some Fresh))), cache2))))))"

subsection \<open>Review snapshots (googleReviewsService.js, googlePlacesClient.js)\<close>

definition fetchPlaceDetails :: "env \<Rightarrow> string \<Rightarrow> string option \<Rightarrow> error + place_details" where
  "fetchPlaceDetails e placeId apiKey =
     (if placeId = [] then Inl PlaceIdRequired
      else if \<not> truthy_str apiKey then Inl ApiKeyRequired
      else case details_fetch e placeId of
             Inl err \<Rightarrow> Inl err
           | Inr res \<Rightarrow>
               if \<not> dt_ok res then Inl PlacesApiHttp
               else if dt_status res \<noteq> ''OK'' then Inl PlacesApiError
               else Inr (dt_result res))"

text \<open>
  The snapshot that \<open>getReviewSnapshot\<close> builds from the place details.  The average
  rating is the exact quotient; the rounding of the host's arithmetic is not modelled.
\<close>

definition make_snapshot :: "env \<Rightarrow> string \<Rightarrow> place_details \<Rightarrow> snapshot" where
  "make_snapshot e placeId result =
     (let rs = (case reviews result of None \<Rightarrow> [] | Some l \<Rightarrow> l)
      in \<lparr>snap_google_place_id = Some placeId,
          snap_google_name = or_str (d_name result) None,
          google_rating = d_rating result,
          google_rating_count = user_ratings_total result,
          recent_reviews = take 5 rs,
          recent_review_count = length rs,
          recent_avg_rating =
            (if rs \<noteq> [] then
               Some (sum_list (map (\<lambda>r. case rating r of None \<Rightarrow> 0 | Some v \<Rightarrow> v) rs)
                       / real (length rs))
             else None),
          fetched_at = Some (now e)\<rparr>)"

definition snapshot_is_fresh :: "env \<Rightarrow> reviews_service \<Rightarrow> snapshot \<Rightarrow> bool" where
  \<comment> \<open>\<open>getFreshness(entry) < maxAgeMs\<close>, the freshness being infinite without a time stamp\<close>
  "snapshot_is_fresh e svc entry =
     (case fetched_at entry of
        None \<Rightarrow> False
      | Some t \<Rightarrow> if t = 0 then False else now e - t < rs_maxAgeMs svc)"

definition readSnapshot :: "env \<Rightarrow> string \<Rightarrow> error + snapshot option" where
  "readSnapshot e placeId =
     (if placeId = [] then Inr None
      else case review_findUnique e placeId of
             Rejected \<Rightarrow> Inl StoreError
           | Fulfilled None \<Rightarrow> Inr None
           | Fulfilled (Some stored) \<Rightarrow>
               Inr (Some ((sr_snapshot stored)\<lparr>fetched_at := sr_fetched_at stored\<rparr>)))"

definition writeSnapshot :: "env \<Rightarrow> string \<Rightarrow> snapshot \<Rightarrow> error + unit" where
  "writeSnapshot e placeId payload =
     (if placeId = [] then Inr ()
      else case review_upsert e placeId
                  \<lparr>sr_snapshot = payload,
                   sr_fetched_at = (if truthy_time (fetched_at payload)
                                    then fetched_at payload else Some (now e))\<rparr> of
             Rejected \<Rightarrow> Inl StoreError
           | Fulfilled _ \<Rightarrow> Inr ())"

text \<open>
  As in \<open>getPlaceId\<close>, the cache is read before the \<open>try\<close> block, and the place-details
  call and the write of the cache are inside it.
\<close>

definition getReviewSnapshot ::
  "env \<Rightarrow> reviews_service \<Rightarrow> (string \<rightharpoonup> snapshot) \<Rightarrow> string
     \<Rightarrow> (error + snapshot option) \<times> (string \<rightharpoonup> snapshot)" where
  "getReviewSnapshot e svc cache placeId =
     (if placeId = [] then (Inr None, cache)
      else
        (case cache_get (readSnapshot e) cache placeId of
           (Inl err, cache1) \<Rightarrow> (Inl err, cache1)
         | (Inr cached, cache1) \<Rightarrow>
             if (case cached of None \<Rightarrow> False | Some c \<Rightarrow> snapshot_is_fresh e svc c) then
               (Inr cached, cache1)
             else if \<not> truthy_str (rs_apiKey svc) then (Inr cached, cache1)
             else
               (case fetchPlaceDetails e placeId (rs_apiKey svc) of
                  Inl err \<Rightarrow> (Inr cached, cache1)
                | Inr result \<Rightarrow>
                    (let snap = make_snapshot e placeId result
                     in case cache_set (writeSnapshot e) cache1 placeId snap of
                          (Inl err, cache2) \<Rightarrow> (Inr cached, cache2)
                        | (Inr _, cache2) \<Rightarrow> (Inr (Some snap), cache2)))))"

subsection \<open>Enriching the top facilities\<close>

definition initial_placeId :: "analysis_args \<Rightarrow> dfacility \<Rightarrow> string option" where
  "initial_placeId args f =
     (let normalizedCcn = normalize_ccn (facility_ccn f);
          seeded = (case normalizedCcn of
                      None \<Rightarrow> None
                    | Some k \<Rightarrow> (case googlePlaceIds args k of
                                   None \<Rightarrow> None
                                 | Some s \<Rightarrow> seed_google_place_id s))
      in or_str (or_str (or_str (or_str (or_str (google_place_id f) (google_placeid f))
                   (place_id f)) (googlePlaceId f)) seeded) None)"

definition historical_for :: "analysis_args \<Rightarrow> cell option \<Rightarrow> (nat \<times> year_metrics) list" where
  \<comment> \<open>\<open>ccn ? historicalSnfTimelines[ccn]?.years || {} : {}\<close>\<close>
  "historical_for args ccn =
     (if truthy_cell ccn then
        (case historicalSnfTimelines args (property_key ccn) of
           None \<Rightarrow> []
         | Some t \<Rightarrow> years t)
      else [])"

definition Object_prototype_members :: "string list" where
  "Object_prototype_members =
     [''constructor'', ''hasOwnProperty'', ''isPrototypeOf'', ''propertyIsEnumerable'',
      ''toLocaleString'', ''toString'', ''valueOf'', ''__proto__'', ''__defineGetter__'',
      ''__defineSetter__'', ''__lookupGetter__'', ''__lookupSetter__'']"

definition regulatory_for :: "analysis_args \<Rightarrow> cell option \<Rightarrow> regulatory_value option" where
  \<comment> \<open>\<open>ccn ? historicalRegulatory[ccn] || null : null\<close>\<close>
  "regulatory_for args ccn =
     (if truthy_cell ccn then
        (case historicalRegulatory args (property_key ccn) of
           Some t \<Rightarrow> Some (Timeline t)
         | None \<Rightarrow>
             if property_key ccn \<in> set Object_prototype_members
             then Some (Inherited (property_key ccn)) else None)
      else None)"

text \<open>
  The body of the loop over the top facilities.  The metrics fetch is inside a \<open>try\<close>
  block; the calls of \<open>getPlaceId\<close> and \<open>getReviewSnapshot\<close> are not, so that a rejection
  of either leaves the loop and rejects \<open>performAnalysis\<close>.
\<close>

definition resolve_placeId ::
  "env \<Rightarrow> analysis_args \<Rightarrow> dfacility \<Rightarrow> world \<Rightarrow> (error + string option) \<times> world" where
  \<comment> \<open>\<open>placeId\<close> after the \<open>if (!placeId && googlePlaceResolver)\<close> block\<close>
  "resolve_placeId e args f w =
     (let placeId0 = initial_placeId args f
      in case googlePlaceResolver args of
           None \<Rightarrow> (Inr placeId0, w)
         | Some r \<Rightarrow>
             if truthy_str placeId0 then (Inr placeId0, w)
             else
               (case getPlaceId e r (placeIdCache w) f of
                  (Inl err, cache') \<Rightarrow> (Inl err, w\<lparr>placeIdCache := cache'\<rparr>)
                | (Inr resolved, cache') \<Rightarrow>
                    (let rid = (case resolved of None \<Rightarrow> None | Some p \<Rightarrow> pe_place_id p)
                     in (Inr (if truthy_str rid then rid else placeId0),
                         w\<lparr>placeIdCache := cache'\<rparr>))))"

definition review_for ::
  "env \<Rightarrow> analysis_args \<Rightarrow> string option \<Rightarrow> world \<Rightarrow> (error + snapshot option) \<times> world" where
  \<comment> \<open>\<open>reviewEnrichment\<close> after the \<open>if (googleReviewsService && placeId)\<close> block\<close>
  "review_for e args placeId w =
     (case googleReviewsService args of
        None \<Rightarrow> (Inr None, w)
      | Some svc \<Rightarrow>
          if truthy_str placeId then
            (case getReviewSnapshot e svc (reviewCache w) (str_or_empty placeId) of
               (res, cache') \<Rightarrow> (res, w\<lparr>reviewCache := cache'\<rparr>))
          else (Inr None, w))"

definition enrich_facility ::
  "env \<Rightarrow> analysis_args \<Rightarrow> nat \<Rightarrow> dfacility \<Rightarrow> world \<Rightarrow> (error + enriched) \<times> world" where
  "enrich_facility e args index f w =
     (let ccn = facility_ccn f;
          q = (case fetchQualityMetrics e ccn of Inl err \<Rightarrow> None | Inr v \<Rightarrow> Some v);
          historical = historical_for args ccn;
          reg = regulatory_for args ccn
      in case resolve_placeId e args f w of
           (Inl err, w1) \<Rightarrow> (Inl err, w1)
         | (Inr placeId, w1) \<Rightarrow>
             (case review_for e args placeId w1 of
                (Inl err, w2) \<Rightarrow> (Inl err, w2)
              | (Inr reviewEnrichment, w2) \<Rightarrow>
                  (Inr \<lparr>base = f,
                        Local_Rank = index + 1,
                        quality_metrics = q,
                        historical_metrics = historical,
                        historical_years_available = length (remdups (map fst historical)),
                        regulatory_history = reg,
                        review_enrichment = reviewEnrichment\<rparr>, w2)))"

fun enrich_all ::
  "env \<Rightarrow> analysis_args \<Rightarrow> nat \<Rightarrow> dfacility list \<Rightarrow> world
     \<Rightarrow> (error + enriched list) \<times> world" where
  "enrich_all e args index [] w = (Inr [], w)"
| "enrich_all e args index (f # fs) w =
     (case enrich_facility e args index f w of
        (Inl err, w1) \<Rightarrow> (Inl err, w1)
      | (Inr r, w1) \<Rightarrow>
          (case enrich_all e args (index + 1) fs w1 of
             (Inl err, w2) \<Rightarrow> (Inl err, w2)
           | (Inr rs, w2) \<Rightarrow> (Inr (r # rs), w2)))"

subsection \<open>The request\<close>

definition performAnalysis ::
  "env \<Rightarrow> analysis_args \<Rightarrow> world \<Rightarrow> (error + analysis) \<times> world" where
  "performAnalysis e args w =
     (if hospitalName args = [] then (Inl HospitalNameRequired, w)
      else
        (case find_hospital (runtime e) (hospitals w) (hospitalName args) of
           None \<Rightarrow> (Inl HospitalNotFound, w)
         | Some hospital \<Rightarrow>
             (case hospital_coordinates e (hospitalName args) hospital w of
                (Inl err, w1) \<Rightarrow> (Inl err, w1)
              | (Inr (hLat, hLon), w1) \<Rightarrow>
                  (let opts = options args;
                       wd = withDistance e (hLat, hLon) (resolved_radius (radiusMiles opts))
                              (snfs args);
                       top = topFacilities opts (ranked e opts wd)
                   in case enrich_all e args 0 top w1 of
                        (Inl err, w2) \<Rightarrow> (Inl err, w2)
                      | (Inr results, w2) \<Rightarrow>
                          (Inr \<lparr>hospital_of =
                                  \<lparr>hs_name = hospital_name hospital, hs_city = h_city hospital,
                                   hs_state = h_state hospital, hs_latitude = hLat,
                                   hs_longitude = hLon\<rparr>,
                                facilities = results,
                                totalWithinRadius = length wd\<rparr>, w2)))))"


section \<open>Loaders\<close>

text \<open>
  A source row (a parsed CSV line or a JSON object of the provider API): column name to
  cell, in the order of the columns.
\<close>

type_synonym row = "(string \<times> cell) list"

subsection \<open>Helpers shared by the loaders\<close>

definition toNumber :: "host \<Rightarrow> cell option \<Rightarrow> real option" where
  "toNumber h v =
     (case v of
        None \<Rightarrow> None
      | Some (CNum n) \<Rightarrow> Some (real n)
      | Some (CStr s) \<Rightarrow>
          if s = [] then None
          else (case Number_of h s of JNum r \<Rightarrow> Some r | JNaN \<Rightarrow> None))"

definition toString :: "host \<Rightarrow> cell option \<Rightarrow> string" where
  "toString h v = (case v of None \<Rightarrow> [] | Some c \<Rightarrow> trim h (String c))"

fun pick :: "cell option list \<Rightarrow> cell option" where
  "pick [] = None"
| "pick (None # vs) = pick vs"
| "pick (Some c # vs) = (if c = CStr [] then pick vs else Some c)"

definition is_lower_alnum :: "char \<Rightarrow> bool" where
  "is_lower_alnum c = (c \<in> set ''abcdefghijklmnopqrstuvwxyz0123456789'')"

fun underscore_runs :: "bool \<Rightarrow> string \<Rightarrow> string" where
  \<comment> \<open>\<open>.replace(/[^a-z0-9]+/g, "_")\<close>; the flag says that a run is being skipped\<close>
  "underscore_runs in_run [] = []"
| "underscore_runs in_run (c # cs) =
     (if is_lower_alnum c then c # underscore_runs False cs
      else if in_run then underscore_runs True cs
      else CHR ''_'' # underscore_runs True cs)"

definition strip_underscores :: "string \<Rightarrow> string" where
  \<comment> \<open>\<open>.replace(/^_|_$/g, "")\<close>\<close>
  "strip_underscores s =
     (let s1 = (case s of [] \<Rightarrow> [] | c # cs \<Rightarrow> if c = CHR ''_'' then cs else s)
      in if s1 \<noteq> [] \<and> last s1 = CHR ''_'' then butlast s1 else s1)"

definition normalizeFieldName :: "host \<Rightarrow> string \<Rightarrow> string" where
  "normalizeFieldName h name = strip_underscores (underscore_runs False (toLowerCase h name))"

definition normalized_keys :: "host \<Rightarrow> row \<Rightarrow> string \<rightharpoonup> string" where
  \<comment> \<open>the \<open>Map\<close> from normalized name to column; a later column replaces an earlier one\<close>
  "normalized_keys h r = map_of (rev (map (\<lambda>(k, v). (normalizeFieldName h k, k)) r))"

fun getField :: "host \<Rightarrow> row \<Rightarrow> string list \<Rightarrow> cell option" where
  "getField h r [] = None"
| "getField h r (candidate # cs) =
     (if candidate = [] then getField h r cs
      else case normalized_keys h r (normalizeFieldName h candidate) of
             Some actualKey \<Rightarrow> map_of r actualKey
           | None \<Rightarrow> getField h r cs)"

fun pickField :: "host \<Rightarrow> row \<Rightarrow> string list \<Rightarrow> cell option" where
  "pickField h r [] = None"
| "pickField h r (candidate # cs) =
     (case normalized_keys h r (normalizeFieldName h candidate) of
        Some k \<Rightarrow> map_of r k
      | None \<Rightarrow> pickField h r cs)"

definition parseLocation :: "host \<Rightarrow> bool \<Rightarrow> row \<Rightarrow> real option \<times> real option" where
  \<comment> \<open>the flag tells the hospitals loader, which asks for \<open>latitude_x\<close> before
      \<open>location_latitude\<close>; a location cell that is an object is not modelled\<close>
  "parseLocation h hospitals_order r =
     (let loc = getField h r [''location'', ''location_1'', ''geocoded_location'', ''location1''];
          lat0 = toNumber h
                   (if hospitals_order then
                      pick [getField h r [''latitude'', ''lat''], getField h r [''latitude_x''],
                            getField h r [''location_latitude'']]
                    else
                      pick [getField h r [''latitude'', ''lat''], getField h r [''location_latitude''],
                            getField h r [''latitude_x'']]);
          lon0 = toNumber h
                   (if hospitals_order then
                      pick [getField h r [''longitude'', ''lon''], getField h r [''longitude_x''],
                            getField h r [''location_longitude'']]
                    else
                      pick [getField h r [''longitude'', ''lon''], getField h r [''location_longitude''],
                            getField h r [''longitude_x'']])
      in if lat0 \<noteq> None \<and> lon0 \<noteq> None then (lat0, lon0)
         else
           (case loc of
              Some (CStr text) \<Rightarrow>
                if text = [] then (lat0, lon0)
                else
                  (case pointMatch h text of
                     Some (m1, m3) \<Rightarrow>
                       (nullish lat0 (toNumber h (Some (CStr m3))),
                        nullish lon0 (toNumber h (Some (CStr m1))))
                   | None \<Rightarrow>
                       (case csvMatch h text of
                          Some (m1, m3) \<Rightarrow>
                            (nullish lat0 (toNumber h (Some (CStr m1))),
                             nullish lon0 (toNumber h (Some (CStr m3))))
                        | None \<Rightarrow> (lat0, lon0)))
            | _ \<Rightarrow> (lat0, lon0)))"

definition number_or_null :: "real option \<Rightarrow> jsnum js" where
  "number_or_null v = (case v of None \<Rightarrow> Null | Some r \<Rightarrow> Val (JNum r))"

definition average :: "real list \<Rightarrow> real option" where
  "average numbers =
     (if numbers = [] then None else Some (sum_list numbers / real (length numbers)))"

subsection \<open>Facilities (snfsLoader.js)\<close>

text \<open>
  Of the record that \<open>mapSNFRow\<close> builds, the fields that \<open>performAnalysis\<close> and the
  place resolver never read (id, county, phone, ownership and three of the star ratings)
  are left out.
\<close>

definition mapSNFRow :: "host \<Rightarrow> row \<Rightarrow> facility option" where
  "mapSNFRow h r =
     (let providerId = pick [getField h r [''provider_id'', ''provider_number'', ''ccn'',
                               ''cms_certification_number_(ccn)'', ''federal_provider_number'']];
          name = pick [getField h r [''provider_name'', ''facility_name'', ''name'']]
      in if \<not> truthy_cell name then None
         else
           (let addr = pick [getField h r [''address'', ''provider_address'', ''address_line_1'']];
                cty = pick [getField h r [''city'', ''city_town'']];
                st = pick [getField h r [''state'', ''state_code'']];
                zip = pick [getField h r [''zip_code'', ''zip'', ''postal_code'']];
                (la, lo) = parseLocation h False r;
                ratings = List.map_filter id
                  [toNumber h (pick [getField h r [''overall_rating''], map_of r ''Overall Rating'']),
                   toNumber h (pick [getField h r [''staffing_rating''], map_of r ''Staffing Rating'']),
                   toNumber h (pick [getField h r [''qm_rating'', ''quality_measure_rating''],
                                     map_of r ''QM Rating'', getField h r [''short_stay_qm_rating'']]),
                   toNumber h (pick [getField h r [''health_inspection_rating''],
                                     map_of r ''Health Inspection Rating''])];
                compositeScore = map_option (\<lambda>c. c * 20) (average ratings);
                ccn = (if truthy_cell providerId then toString h providerId
                       else norm h (toString h name));
                ccn_field = (if ccn \<noteq> [] then Some (CStr ccn) else None);
                overall = toNumber h (pick [getField h r [''overall_rating''],
                                            map_of r ''Overall Rating''])
            in Some \<lparr>facility_name = Some (toString h name),
                     address = Some (toString h addr),
                     city = Some (toString h cty),
                     state = Some (toUpperCase h (toString h st)),
                     zip_code = Some (toString h zip),
                     latitude = number_or_null la,
                     longitude = number_or_null lo,
                     Composite_Score = compositeScore,
                     overall_rating = overall,
                     Overall_Rating = overall,
                     CMS_Certification_Number_CCN = ccn_field,
                     CCN = ccn_field,
                     provider_id = ccn_field,
                     federal_provider_number = None,
                     provider_number = None,
                     google_place_id = None,
                     google_placeid = None,
                     place_id = None,
                     googlePlaceId = None\<rparr>))"

subsection \<open>Hospitals (hospitalsLoader.js)\<close>

text \<open>
  \<open>mapHospitalRow\<close> writes the coordinates under \<open>latitude\<close> and \<open>longitude\<close>; the
  record it builds has no property \<open>Latitude\<close> or \<open>Longitude\<close>.  The fields that
  \<open>performAnalysis\<close> never reads are left out.
\<close>

definition mapHospitalRow :: "host \<Rightarrow> row \<Rightarrow> hospital option" where
  "mapHospitalRow h r =
     (let name = pick [getField h r [''hospital_name'', ''facility_name'', ''provider_name'', ''name'']]
      in if \<not> truthy_cell name then None
         else
           (let addr = pick [getField h r [''address'', ''address_line_1'', ''provider_address'']];
                cty = pick [getField h r [''city'', ''city_town'', ''city_town_name'']];
                st = pick [getField h r [''state'', ''state_code'']];
                zip = pick [getField h r [''zip_code'', ''zip'', ''postal_code'']];
                (la, lo) = parseLocation h True r
            in Some \<lparr>hospital_name = toString h name,
                     h_address = toString h addr,
                     h_city = toString h cty,
                     h_state = toUpperCase h (toString h st),
                     h_zip_code = toString h zip,
                     Latitude = Undefined,
                     Longitude = Undefined,
                     h_latitude = number_or_null la,
                     h_longitude = number_or_null lo\<rparr>))"


subsection \<open>Historical quality timelines (historicalSnfLoader.js)\<close>

definition MDS_METRIC_CODES :: "(string \<times> string list) list" where
  "MDS_METRIC_CODES =
     [(''pressure_ulcer_rate'', [''453'']),
      (''fall_with_major_injury_rate'', [''410'']),
      (''medication_review_rate'', [''452'']),
      (''discharge_to_community_rate'', [''430'']),
      (''healthcare_associated_infection_rate'', [''407''])]"

definition CLAIMS_METRIC_CODES :: "(string \<times> string list) list" where
  "CLAIMS_METRIC_CODES =
     [(''short_stay_rehospitalization_rate'', [''521'']),
      (''short_stay_ed_visit_rate'', [''522'']),
      (''long_stay_hospitalization_rate'', [''551'']),
      (''long_stay_ed_visit_rate'', [''552''])]"

definition QRP_METRIC_CODES :: "(string \<times> string) list" where
  "QRP_METRIC_CODES =
     [(''self_care_at_discharge'', ''S_024_04_OBS_RATE''),
      (''mobility_at_discharge'', ''S_025_04_OBS_RATE'')]"

definition normalizeCCNFromRow :: "host \<Rightarrow> row \<Rightarrow> string" where
  "normalizeCCNFromRow h r =
     padStart 6 CHR ''0''
       (toString h (pickField h r [''cms_certification_number_(ccn)'', ''federal_provider_number'',
                               ''provider_number'', ''ccn'', ''federal provider number'']))"

text \<open>The entry of one facility in one year, as \<open>ensureEntry\<close> creates it.\<close>

record year_entry =
  e_ccn :: string
  e_year :: nat
  e_facility_name :: string
  e_address :: string
  e_city :: string
  e_state :: string
  e_zip_code :: string
  e_county_name :: string
  e_phone_number :: string
  metrics :: year_metrics

definition keep_or :: "string \<Rightarrow> string \<Rightarrow> string" where
  \<comment> \<open>\<open>old || new\<close> on strings\<close>
  "keep_or old new = (if old \<noteq> [] then old else new)"

definition col2 :: "row \<Rightarrow> string \<Rightarrow> string \<Rightarrow> cell option" where
  \<comment> \<open>\<open>row[a] || row[b]\<close>\<close>
  "col2 r a b = or_cell (map_of r a) (map_of r b)"

definition mergeEntryDetails :: "host \<Rightarrow> year_entry \<Rightarrow> row \<Rightarrow> year_entry" where
  "mergeEntryDetails h entry r =
     entry\<lparr>e_facility_name :=
             keep_or (e_facility_name entry) (toString h (col2 r ''Provider Name'' ''provider_name'')),
           e_address :=
             keep_or (e_address entry) (toString h (col2 r ''Provider Address'' ''provider_address'')),
           e_city := keep_or (e_city entry) (toString h (col2 r ''Provider City'' ''provider_city'')),
           e_state := keep_or (e_state entry) (toString h (col2 r ''Provider State'' ''provider_state'')),
           e_zip_code :=
             keep_or (e_zip_code entry) (toString h (col2 r ''Provider Zip Code'' ''provider_zip_code'')),
           e_county_name :=
             keep_or (e_county_name entry)
               (toString h (col2 r ''Provider County Name'' ''provider_county_name'')),
           e_phone_number :=
             keep_or (e_phone_number entry)
               (toString h (col2 r ''Provider Phone Number'' ''provider_phone_number''))\<rparr>"

definition mergeProviderInfo :: "host \<Rightarrow> year_entry \<Rightarrow> row option \<Rightarrow> year_entry" where
  \<comment> \<open>the same seven assignments as \<open>mergeEntryDetails\<close>, skipped without a provider row\<close>
  "mergeProviderInfo h entry providerInfo =
     (case providerInfo of None \<Rightarrow> entry | Some r \<Rightarrow> mergeEntryDetails h entry r)"

definition ensureEntry ::
  "host \<Rightarrow> (string \<times> year_entry) list \<Rightarrow> string \<Rightarrow> (string \<times> row) list \<Rightarrow> row \<Rightarrow> nat
     \<Rightarrow> year_entry" where
  \<comment> \<open>the entry after the two merges; the caller stores it back under \<open>ccn\<close>\<close>
  "ensureEntry h entryMap ccn providerInfoMap sourceRow year =
     (let entry = (case map_of entryMap ccn of
                     Some en \<Rightarrow> en
                   | None \<Rightarrow> \<lparr>e_ccn = ccn, e_year = year, e_facility_name = [], e_address = [],
                               e_city = [], e_state = [], e_zip_code = [], e_county_name = [],
                               e_phone_number = [], metrics = []\<rparr>)
      in mergeProviderInfo h (mergeEntryDetails h entry sourceRow) (map_of providerInfoMap ccn))"

fun loadProviderInfo_rows ::
  "host \<Rightarrow> row list \<Rightarrow> (string \<times> row) list \<Rightarrow> (string \<times> row) list" where
  "loadProviderInfo_rows h [] m = m"
| "loadProviderInfo_rows h (r # rs) m =
     (let ccn = normalizeCCNFromRow h r
      in if trim h ccn = [] then loadProviderInfo_rows h rs m
         else loadProviderInfo_rows h rs (AList.update ccn r m))"

definition loadProviderInfo :: "host \<Rightarrow> row list option \<Rightarrow> (string \<times> row) list" where
  \<comment> \<open>\<open>None\<close>: the file cannot be read\<close>
  "loadProviderInfo h file =
     (case file of None \<Rightarrow> [] | Some rs \<Rightarrow> loadProviderInfo_rows h rs [])"

definition measure_code :: "host \<Rightarrow> row \<Rightarrow> string" where
  \<comment> \<open>\<open>String(row["Measure Code"] || row["measure code"] || "").trim()\<close>\<close>
  "measure_code h r = toString h (or_cell (col2 r ''Measure Code'' ''measure code'') (Some (CStr [])))"

definition metric_key_of :: "(string \<times> string list) list \<Rightarrow> string \<Rightarrow> string option" where
  \<comment> \<open>\<open>Object.entries(CODES).find(([, codes]) => codes.includes(measureCode))?.[0]\<close>\<close>
  "metric_key_of codes c = map_option fst (List.find (\<lambda>(k, cs). c \<in> set cs) codes)"

fun ingest_rows ::
  "host \<Rightarrow> (string \<times> string list) list \<Rightarrow> string \<Rightarrow> string \<Rightarrow> (string \<times> row) list \<Rightarrow> nat
     \<Rightarrow> row list \<Rightarrow> (string \<times> year_entry) list \<Rightarrow> (string \<times> year_entry) list" where
  \<comment> \<open>the loop of one handler of \<open>loadYear\<close>; \<open>valueA\<close> and \<open>valueB\<close> are the two
      spellings of the value column\<close>
  "ingest_rows h codes valueA valueB providerInfoMap year [] entryMap = entryMap"
| "ingest_rows h codes valueA valueB providerInfoMap year (r # rs) entryMap =
     (let ccn = normalizeCCNFromRow h r
      in if trim h ccn = [] then ingest_rows h codes valueA valueB providerInfoMap year rs entryMap
         else
           (case metric_key_of codes (measure_code h r) of
              None \<Rightarrow> ingest_rows h codes valueA valueB providerInfoMap year rs entryMap
            | Some metricKey \<Rightarrow>
                if metricKey = [] then
                  ingest_rows h codes valueA valueB providerInfoMap year rs entryMap
                else
                  (case toNumber h (col2 r valueA valueB) of
                     None \<Rightarrow> ingest_rows h codes valueA valueB providerInfoMap year rs entryMap
                   | Some v \<Rightarrow>
                       (let entry = ensureEntry h entryMap ccn providerInfoMap r year;
                            entry' = entry\<lparr>metrics := AList.update metricKey v (metrics entry)\<rparr>
                        in ingest_rows h codes valueA valueB providerInfoMap year rs
                             (AList.update ccn entry' entryMap)))))"

definition ingestFile ::
  "row list option \<Rightarrow> (row list \<Rightarrow> (string \<times> year_entry) list \<Rightarrow> (string \<times> year_entry) list)
     \<Rightarrow> (string \<times> year_entry) list \<Rightarrow> bool \<times> (string \<times> year_entry) list" where
  \<comment> \<open>\<open>None\<close>: the file is missing or cannot be read, and the handler does not run\<close>
  "ingestFile file handler entryMap =
     (case file of None \<Rightarrow> (False, entryMap) | Some rs \<Rightarrow> (True, handler rs entryMap))"

fun ingest_first ::
  "row list option list
     \<Rightarrow> (row list \<Rightarrow> (string \<times> year_entry) list \<Rightarrow> (string \<times> year_entry) list)
     \<Rightarrow> (string \<times> year_entry) list \<Rightarrow> (string \<times> year_entry) list" where
  \<comment> \<open>the loop over \<open>qrpPaths\<close>, which stops at the first file that loads\<close>
  "ingest_first [] handler entryMap = entryMap"
| "ingest_first (file # files) handler entryMap =
     (case ingestFile file handler entryMap of
        (True, m) \<Rightarrow> m
      | (False, m) \<Rightarrow> ingest_first files handler m)"

text \<open>The files of one year: provider info, MDS, claims, and the two places of the QRP file.\<close>

record year_files =
  providerInfoFile :: "row list option"
  mdsFile :: "row list option"
  claimsFile :: "row list option"
  qrpFiles :: "row list option list"

definition loadYear :: "host \<Rightarrow> nat \<Rightarrow> year_files \<Rightarrow> year_entry list" where
  "loadYear h year files =
     (let providerInfoMap = loadProviderInfo h (providerInfoFile files);
          m1 = snd (ingestFile (mdsFile files)
                      (ingest_rows h MDS_METRIC_CODES ''Four Quarter Average Score''
                         ''four quarter average score'' providerInfoMap year) []);
          m2 = snd (ingestFile (claimsFile files)
                      (ingest_rows h CLAIMS_METRIC_CODES ''Adjusted Score'' ''adjusted score''
                         providerInfoMap year) m1);
          m3 = ingest_first (qrpFiles files)
                 (ingest_rows h (map (\<lambda>(k, c). (k, [c])) QRP_METRIC_CODES) ''Score'' ''score''
                    providerInfoMap year) m2
      in filter (\<lambda>entry. metrics entry \<noteq> []) (map snd m3))"

fun add_year_rows ::
  "nat \<Rightarrow> year_entry list \<Rightarrow> (string \<times> timeline) list \<Rightarrow> (string \<times> timeline) list" where
  "add_year_rows year [] timelines = timelines"
| "add_year_rows year (r # rs) timelines =
     (let t = (case map_of timelines (e_ccn r) of
                 Some t0 \<Rightarrow> t0
               | None \<Rightarrow> \<lparr>tl_ccn = e_ccn r, tl_facility_name = e_facility_name r,
                           tl_address = e_address r, tl_city = e_city r, tl_state = e_state r,
                           tl_zip_code = e_zip_code r, tl_county_name = e_county_name r,
                           tl_phone_number = e_phone_number r, years = []\<rparr>)
      in add_year_rows year rs
           (AList.update (e_ccn r) (t\<lparr>years := AList.update year (metrics r) (years t)\<rparr>)
              timelines))"

fun load_years ::
  "host \<Rightarrow> (nat \<Rightarrow> year_files) \<Rightarrow> nat list \<Rightarrow> (string \<times> timeline) list
     \<Rightarrow> (string \<times> timeline) list" where
  "load_years h fs [] timelines = timelines"
| "load_years h fs (year # ys) timelines =
     load_years h fs ys (add_year_rows year (loadYear h year (fs year)) timelines)"

definition loadHistoricalSNFQuality ::
  "host \<Rightarrow> (nat \<Rightarrow> year_files) \<Rightarrow> nat list \<Rightarrow> (string \<times> timeline) list" where
  "loadHistoricalSNFQuality h fs ys = load_years h fs ys []"

section \<open>Metric resolver of the dashboard (SNFDashboard.js)\<close>

text \<open>
  One entry of \<open>metricDefinitions\<close>.  The display-only fields (unit, description,
  preference, group) play no part in the resolution.
\<close>

record metric_def =
  label :: string
  currentKey :: "string option"
  historicalKey :: string
  higherIsBetter :: bool

text \<open>
  The facility object the dashboard receives.  \<open>dprops\<close> are its own properties as read
  through \<open>metric.currentKey\<close>: \<open>None\<close> when the key is absent, \<open>Some None\<close> when it is
  present and holds \<open>null\<close>.  \<open>dhistorical_metrics\<close> is the field \<open>historical_metrics\<close>,
  a year-keyed object of metric objects.
\<close>

record dash_facility =
  dprops :: "string \<rightharpoonup> real option"
  dhistorical_metrics :: "(nat \<times> year_metrics) list option"

datatype metric_source = Current | Historical

record trend =
  delta :: real
  good :: bool
  yearSpan :: "nat \<times> nat"

record resolved_metric =
  rvalue :: "real option"
  rsource :: "metric_source option"
  historicalLatestYear :: "nat option"
  rtrend :: "trend option"

definition metric_at :: "(nat \<times> year_metrics) list \<Rightarrow> nat \<Rightarrow> string \<Rightarrow> real option" where
  \<comment> \<open>\<open>history[year]?.[key]\<close>\<close>
  "metric_at history y k = (case map_of history y of None \<Rightarrow> None | Some m \<Rightarrow> map_of m k)"

definition current_value :: "dash_facility \<Rightarrow> metric_def \<Rightarrow> real option" where
  \<comment> \<open>\<open>metric.currentKey && metric.currentKey in facility ? facility[metric.currentKey] : undefined\<close>\<close>
  "current_value facility metric =
     (case currentKey metric of
        None \<Rightarrow> None
      | Some k \<Rightarrow> (if k = [] then None
                   else case dprops facility k of None \<Rightarrow> None | Some v \<Rightarrow> v))"

definition history_years :: "dash_facility \<Rightarrow> nat list" where
  \<comment> \<open>\<open>Object.keys(history).map(Number).sort((a, b) => a - b)\<close>\<close>
  "history_years facility =
     (case dhistorical_metrics facility of
        None \<Rightarrow> []
      | Some history \<Rightarrow> sort (remdups (map fst history)))"

definition historical_latest :: "dash_facility \<Rightarrow> metric_def \<Rightarrow> (real \<times> nat) option" where
  \<comment> \<open>the pair \<open>(historicalLatest, historicalLatestYear)\<close>, both set or both \<open>null\<close>\<close>
  "historical_latest facility metric =
     (let history = (case dhistorical_metrics facility of None \<Rightarrow> [] | Some h \<Rightarrow> h);
          years = history_years facility
      in if years \<noteq> [] then
           (let latestYear = last years
            in case metric_at history latestYear (historicalKey metric) of
                 None \<Rightarrow> None
               | Some latestValue \<Rightarrow> Some (latestValue, latestYear))
         else None)"

definition resolveMetricValue :: "dash_facility \<Rightarrow> metric_def \<Rightarrow> resolved_metric" where
  "resolveMetricValue facility metric =
     (let currentValue = current_value facility metric;
          history = (case dhistorical_metrics facility of None \<Rightarrow> [] | Some h \<Rightarrow> h);
          years = history_years facility;
          hl = historical_latest facility metric;
          historicalLatest = map_option fst hl;
          val = (case currentValue of Some v \<Rightarrow> Some v | None \<Rightarrow> historicalLatest);
          source = (if currentValue \<noteq> None then Some Current
                    else if historicalLatest \<noteq> None then Some Historical else None);
          tr = (if length years \<ge> 2 then
                  (let earliestYear = hd years;
                       earliestValue = metric_at history earliestYear (historicalKey metric)
                   in case (hl, earliestValue) of
                        (Some (latest, latestYear), Some earliest) \<Rightarrow>
                          (let d = latest - earliest;
                               positive = (d > 0)
                           in Some \<lparr>delta = d,
                                    good = (if higherIsBetter metric then positive else \<not> positive),
                                    yearSpan = (earliestYear, latestYear)\<rparr>)
                      | _ \<Rightarrow> None)
                else None)
      in \<lparr>rvalue = val, rsource = source,
          historicalLatestYear = map_option snd hl, rtrend = tr\<rparr>)"

section \<open>Sample data\<close>

text \<open>
  Stand-ins for the text functions of the host, which agree with them on ASCII text (all
  the text of the sample data): the case mappings of the 26 letters, and the white space
  below code 128 (space, tab, line feed, vertical tab, form feed, carriage return).
\<close>

definition upper_char :: "char \<Rightarrow> char" where
  "upper_char c =
     (case map_of (zip ''abcdefghijklmnopqrstuvwxyz'' ''ABCDEFGHIJKLMNOPQRSTUVWXYZ'') c of
        Some u \<Rightarrow> u | None \<Rightarrow> c)"

definition lower_char :: "char \<Rightarrow> char" where
  "lower_char c =
     (case map_of (zip ''ABCDEFGHIJKLMNOPQRSTUVWXYZ'' ''abcdefghijklmnopqrstuvwxyz'') c of
        Some l \<Rightarrow> l | None \<Rightarrow> c)"

definition ascii_upper :: "string \<Rightarrow> string" where
  "ascii_upper s = map upper_char s"

definition ascii_lower :: "string \<Rightarrow> string" where
  "ascii_lower s = map lower_char s"

definition is_space :: "char \<Rightarrow> bool" where
  "is_space c = (c \<in> set [CHR '' '', CHR 0x09, CHR 0x0A, CHR 0x0B, CHR 0x0C, CHR 0x0D])"

definition ascii_trim :: "string \<Rightarrow> string" where
  "ascii_trim s = rev (dropWhile is_space (rev (dropWhile is_space s)))"

definition sample_host :: host where
  "sample_host =
     \<lparr>toUpperCase = ascii_upper, toLowerCase = ascii_lower, trim = ascii_trim,
      Number_of = (\<lambda>s. if s = ''36'' then JNum 36 else if s = ''-82'' then JNum (- 82)
                        else if s = ''36.5'' then JNum 36.5 else if s = ''1.5'' then JNum 1.5
                        else if s = ''2.5'' then JNum 2.5 else JNaN),
      pointMatch = (\<lambda>s. None), csvMatch = (\<lambda>s. None), norm = ascii_lower\<rparr>"

text \<open>
  A stand-in for the distance function on the sample data (69 miles per degree along the
  grid), and a collation by character code.
\<close>

definition grid_distance :: "jsnum js \<times> jsnum js \<Rightarrow> jsnum js \<times> jsnum js \<Rightarrow> jsnum" where
  "grid_distance p q =
     (case (p, q) of
        ((Val (JNum a), Val (JNum b)), (Val (JNum c), Val (JNum d))) \<Rightarrow>
          JNum (69 * (\<bar>a - c\<bar> + \<bar>b - d\<bar>))
      | _ \<Rightarrow> JNaN)"

fun code_compare :: "string \<Rightarrow> string \<Rightarrow> jsnum" where
  "code_compare [] [] = JNum 0"
| "code_compare [] (b # bs) = JNum (- 1)"
| "code_compare (a # as) [] = JNum 1"
| "code_compare (a # as) (b # bs) =
     (if a = b then code_compare as bs
      else if (of_char a :: nat) < of_char b then JNum (- 1) else JNum 1)"

text \<open>
  An environment in which every HTTP call fails and the database answers (it holds no
  row), one in which geocoding works as well, and two in which the database rejects a
  read: that of the place-id cache, and that of the review cache.
\<close>

definition offline_env :: env where
  "offline_env =
     \<lparr>runtime = sample_host,
      haversine = grid_distance, localeCompare = code_compare,
      geocodeHospitalAddress = (\<lambda>req. None),
      cms_fetch = (\<lambda>m c. Inl NetworkError),
      findplace_fetch = (\<lambda>q b. Inl NetworkError),
      details_fetch = (\<lambda>p. Inl NetworkError),
      place_findUnique = (\<lambda>k. Fulfilled None),
      place_upsert = (\<lambda>k v. Fulfilled ()),
      review_findUnique = (\<lambda>k. Fulfilled None),
      review_upsert = (\<lambda>k v. Fulfilled ()),
      now = 1700000000000\<rparr>"

definition geocoding_env :: env where
  "geocoding_env =
     offline_env\<lparr>geocodeHospitalAddress :=
                   (\<lambda>req. Some \<lparr>lat = Val (JNum 36), lon = Val (JNum (- 82))\<rparr>)\<rparr>"

definition place_store_down_env :: env where
  "place_store_down_env = geocoding_env\<lparr>place_findUnique := (\<lambda>k. Rejected)\<rparr>"

definition review_store_down_env :: env where
  "review_store_down_env = geocoding_env\<lparr>review_findUnique := (\<lambda>k. Rejected)\<rparr>"

text \<open>
  An environment in which the find-place request answers with a candidate and the
  database rejects the write of the place-id cache.
\<close>

definition place_write_down_env :: env where
  "place_write_down_env =
     geocoding_env
       \<lparr>findplace_fetch :=
          (\<lambda>q b. Inr \<lparr>fp_ok = True, fp_status = ''OK'',
                          fp_candidates =
                            [\<lparr>c_place_id = Some ''place-found'', c_name = Some ''Found'',
                              c_formatted_address = None, c_location = None\<rparr>]\<rparr>),
        place_upsert := (\<lambda>k v. Rejected)\<rparr>"

definition hospital_row :: row where
  "hospital_row =
     [(''Facility ID'', CStr ''440063''), (''Facility Name'', CStr ''Holston Valley Medical Center''),
      (''City'', CStr ''Kingsport''), (''State'', CStr ''tn''),
      (''Latitude'', CStr ''36''), (''Longitude'', CStr ''-82'')]"

definition loaded_hospital :: hospital where
  \<comment> \<open>what \<open>mapHospitalRow\<close> makes of \<open>hospital_row\<close>\<close>
  "loaded_hospital =
     \<lparr>hospital_name = ''Holston Valley Medical Center'', h_address = [], h_city = ''Kingsport'',
      h_state = ''TN'', h_zip_code = [], Latitude = Undefined, Longitude = Undefined,
      h_latitude = Val (JNum 36), h_longitude = Val (JNum (- 82))\<rparr>"

definition bare_hospital :: hospital where
  \<comment> \<open>a hospital without coordinates\<close>
  "bare_hospital =
     \<lparr>hospital_name = ''Unicoi County Hospital'', h_address = ''2030 Temple Hill Rd'',
      h_city = ''Erwin'', h_state = ''TN'', h_zip_code = ''37650'', Latitude = Undefined,
      Longitude = Undefined, h_latitude = Null, h_longitude = Null\<rparr>"

definition located_hospital :: hospital where
  \<comment> \<open>a hospital whose record has the capitalised properties\<close>
  "located_hospital =
     \<lparr>hospital_name = ''Johnson City Medical Center'', h_address = ''400 N State of Franklin Rd'',
      h_city = ''Johnson City'', h_state = ''TN'', h_zip_code = ''37604'',
      Latitude = Val (JNum 36), Longitude = Val (JNum (- 82)),
      h_latitude = Val (JNum 36), h_longitude = Val (JNum (- 82))\<rparr>"

definition sample_facility :: "string \<Rightarrow> cell option \<Rightarrow> jsnum js \<Rightarrow> real option \<Rightarrow> facility" where
  "sample_facility name ccn la score =
     \<lparr>facility_name = Some name, address = Some [], city = Some ''Johnson City'',
      state = Some ''TN'', zip_code = Some [], latitude = la, longitude = Val (JNum (- 82)),
      Composite_Score = score, overall_rating = None, Overall_Rating = None,
      CMS_Certification_Number_CCN = ccn, CCN = ccn, provider_id = ccn,
      federal_provider_number = None, provider_number = None, google_place_id = None,
      google_placeid = None, place_id = None, googlePlaceId = None\<rparr>"

definition sample_snfs :: "facility list" where
  "sample_snfs =
     [sample_facility ''Bravo Rehab'' (Some (CStr ''15009'')) (Val (JNum 36.5)) None,
      sample_facility ''alpha care'' (Some (CStr ''015010'')) (Val (JNum 36.25)) (Some 80),
      sample_facility ''Charlie Nursing'' None (Val (JNum 36.125)) (Some 90),
      sample_facility ''Delta Manor'' (Some (CStr ''445011'')) (Val (JNum 40)) (Some 100),
      sample_facility ''Echo House'' (Some (CStr ''445012'')) Undefined (Some 70),
      sample_facility ''Foxtrot Lodge'' (Some (CStr ''445013'')) (Val (JNum 36.0625)) None]"

definition sample_timeline :: timeline where
  "sample_timeline =
     \<lparr>tl_ccn = ''015009'', tl_facility_name = ''Bravo Rehab'', tl_address = [], tl_city = [],
      tl_state = [], tl_zip_code = [], tl_county_name = [], tl_phone_number = [],
      years = [(2022, [(''pressure_ulcer_rate'', 1.5)]), (2024, [(''pressure_ulcer_rate'', 2.5)])]\<rparr>"

definition sample_regulatory :: regulatory where
  "sample_regulatory =
     \<lparr>reg_ccn = ''015009'',
      citations = [(2023, \<lparr>total = 2, immediateJeopardy = 0, actualHarm = 1, potentialHarm = 1,
                            minimalHarm = 0, infectionControl = 1\<rparr>)],
      penalties = []\<rparr>"

text \<open>
  Rows of the facility feed and of the yearly MDS extracts.  The 2022 extract spells the
  identifier of Bravo Rehab without its leading zero, the 2024 extract with it.
\<close>

definition snf_row :: "cell \<Rightarrow> row" where
  "snf_row ccn =
     [(''Federal Provider Number'', ccn), (''Provider Name'', CStr ''Bravo Rehab''),
      (''City'', CStr ''Johnson City''), (''State'', CStr ''tn''),
      (''Latitude'', CStr ''36.5''), (''Longitude'', CStr ''-82'')]"

definition mds_row :: "string \<Rightarrow> string \<Rightarrow> string \<Rightarrow> string \<Rightarrow> row" where
  "mds_row ccn name code score =
     [(''CMS Certification Number (CCN)'', CStr ccn), (''Provider Name'', CStr name),
      (''Measure Code'', CStr code), (''Four Quarter Average Score'', CStr score)]"

definition sample_year_files :: "nat \<Rightarrow> year_files" where
  "sample_year_files year =
     \<lparr>providerInfoFile = None,
      mdsFile = (if year = 2022 then Some [mds_row ''15009'' ''Bravo Rehab'' ''453'' ''1.5'']
                 else if year = 2024 then Some [mds_row ''015009'' ''Bravo Rehab'' ''453'' ''2.5'']
                 else None),
      claimsFile = None, qrpFiles = [None, None]\<rparr>"

text \<open>Two rows of an MDS extract without an identifier: no such column, and an empty cell.\<close>

definition ghost_row :: row where
  "ghost_row =
     [(''Provider Name'', CStr ''Ghost Home''), (''Measure Code'', CStr ''453''),
      (''Four Quarter Average Score'', CStr ''1.5'')]"

definition ghost_rows :: "row list" where
  "ghost_rows = [ghost_row, mds_row [] ''Phantom Villa'' ''410'' ''2.5'']"

definition ghost_year_files :: "nat \<Rightarrow> year_files" where
  "ghost_year_files year =
     \<lparr>providerInfoFile = None, mdsFile = Some ghost_rows, claimsFile = None,
      qrpFiles = [None, None]\<rparr>"

definition sample_world :: world where
  "sample_world =
     \<lparr>hospitals = [bare_hospital, located_hospital, loaded_hospital],
      placeIdCache = Map.empty, reviewCache = Map.empty, geocode_calls = []\<rparr>"

definition sample_args :: "string \<Rightarrow> analysis_options \<Rightarrow> analysis_args" where
  "sample_args name opts =
     \<lparr>hospitalName = name, snfs = sample_snfs,
      historicalSnfTimelines = [''015009'' \<mapsto> sample_timeline],
      historicalRegulatory = [''015009'' \<mapsto> sample_regulatory],
      googleReviewsService = Some \<lparr>rs_apiKey = Some ''key'', rs_maxAgeMs = 604800000\<rparr>,
      googlePlaceIds = Map.empty,
      googlePlaceResolver =
        Some \<lparr>pr_apiKey = Some ''key'', pr_maxAgeMs = 2592000000, seedPlaceIds = Map.empty\<rparr>,
      options = opts\<rparr>"

definition sample_name :: string where
  "sample_name = ''holston valley medical center ''"

definition default_options :: analysis_options where
  \<comment> \<open>\<open>options = {}\<close>\<close>
  "default_options =
     \<lparr>mode = None, radiusMiles = Undefined, limit = Undefined, sortBy = None, order = None\<rparr>"


definition zero_limit_options :: analysis_options where
  "zero_limit_options = default_options\<lparr>limit := Val (LimNum (JNum 0))\<rparr>"






text \<open>A facility with a known place id, and a world whose review cache holds an old snapshot of it.\<close>

definition listed_charlie :: facility where
  "listed_charlie =
     (sample_facility ''Charlie Nursing'' None (Val (JNum 36.125)) (Some 90))
       \<lparr>google_place_id := Some ''place-charlie''\<rparr>"

definition stale_snapshot :: snapshot where
  "stale_snapshot =
     \<lparr>snap_google_place_id = Some ''place-charlie'', snap_google_name = Some ''Charlie Nursing'',
      google_rating = Some 4.5, google_rating_count = Some 12, recent_reviews = [],
      recent_review_count = 0, recent_avg_rating = None, fetched_at = Some 1\<rparr>"

definition stale_world :: world where
  "stale_world = sample_world\<lparr>reviewCache := [''place-charlie'' \<mapsto> stale_snapshot]\<rparr>"

definition stale_args :: analysis_args where
  "stale_args = (sample_args sample_name default_options)\<lparr>snfs := [listed_charlie]\<rparr>"

text \<open>Sample data for the dashboard's resolver.\<close>

definition mobility_metric :: metric_def where
  "mobility_metric =
     \<lparr>label = ''Mobility at Discharge'', currentKey = Some ''Mobility at Discharge'',
      historicalKey = ''mobility_at_discharge'', higherIsBetter = True\<rparr>"

definition sample_history :: "(nat \<times> year_metrics) list" where
  "sample_history =
     [(2022, [(''mobility_at_discharge'', 10)]), (2024, [(''mobility_at_discharge'', 14)])]"

definition gap_history :: "(nat \<times> year_metrics) list" where
  \<comment> \<open>the metric is present in 2022 and missing from the latest year\<close>
  "gap_history =
     [(2022, [(''mobility_at_discharge'', 10)]), (2024, [(''pressure_ulcer_rate'', 3)])]"

definition dash_sample :: "real option \<Rightarrow> (nat \<times> year_metrics) list \<Rightarrow> dash_facility" where
  "dash_sample cur h =
     \<lparr>dprops = [''Mobility at Discharge'' \<mapsto> cur], dhistorical_metrics = Some h\<rparr>"


section \<open>Basic facts about the model\<close>

lemma distance_with_distance [simp]: "distance (with_distance f d) = d"
  by (simp add: with_distance_def facility.defs dfacility.defs)

lemma withDistance_within:
  "f \<in> set (withDistance e h radius fs) \<Longrightarrow> js_le (distance f) radius"
  by (auto simp: withDistance_def)


lemma set_insert_by [simp]: "set (insert_by cmp x xs) = insert x (set xs)"
  by (induction xs) auto

lemma length_insert_by [simp]: "length (insert_by cmp x xs) = Suc (length xs)"
  by (induction xs) auto

lemma set_js_sort [simp]: "set (js_sort cmp xs) = set xs"
  by (induction xs) (auto simp: js_sort_def)

lemma length_js_sort [simp]: "length (js_sort cmp xs) = length xs"
  by (induction xs) (auto simp: js_sort_def)


lemma set_slice0: "set (slice0 xs n) \<subseteq> set xs"
  by (auto simp: slice0_def Let_def dest: in_set_takeD)

lemma length_slice0: "length (slice0 xs n) \<le> length xs"
  by (simp add: slice0_def Let_def)

lemma fetchQualityMetrics_Inr:
  "fetchQualityMetrics e ccn =
     Inr \<lparr>Mobility_at_Discharge = settled_field (fetchCMSMetric e ccn mobility) ''mobility_percent'',
          Discharge_to_Community_Rate =
            settled_field (fetchCMSMetric e ccn discharge) ''discharge_to_community_percent'',
          Fall_with_Major_Injury_Rate =
            settled_field (fetchCMSMetric e ccn falls) ''fall_with_major_injury_percent'',
          Healthcare_Associated_Infection_Rate =
            settled_field (fetchCMSMetric e ccn hai) ''hai_percent''\<rparr>"
  by (simp add: fetchQualityMetrics_def Let_def)

lemma settled_field_failed: "settled_field (Inl err) k = None"
  by (simp add: settled_field_def)

subsection \<open>The enrichment loop\<close>

lemma enrich_facility_Inr:
  assumes "fst (enrich_facility e args i f w) = Inr r"
  shows "base r = f"
    and "Local_Rank r = i + 1"
    and "quality_metrics r =
           Some \<lparr>Mobility_at_Discharge =
                   settled_field (fetchCMSMetric e (facility_ccn f) mobility) ''mobility_percent'',
                 Discharge_to_Community_Rate =
                   settled_field (fetchCMSMetric e (facility_ccn f) discharge)
                     ''discharge_to_community_percent'',
                 Fall_with_Major_Injury_Rate =
                   settled_field (fetchCMSMetric e (facility_ccn f) falls)
                     ''fall_with_major_injury_percent'',
                 Healthcare_Associated_Infection_Rate =
                   settled_field (fetchCMSMetric e (facility_ccn f) hai) ''hai_percent''\<rparr>"
  using assms
  by (auto simp: enrich_facility_def fetchQualityMetrics_Inr Let_def
      split: prod.splits sum.splits)

lemma enrich_all_Cons_Inr:
  "fst (enrich_all e args i (f # fs) w) = Inr xs \<longleftrightarrow>
     (\<exists>r w1 rs. enrich_facility e args i f w = (Inr r, w1) \<and>
        fst (enrich_all e args (i + 1) fs w1) = Inr rs \<and> xs = r # rs)"
  by (auto split: prod.splits sum.splits)

lemma enrich_all_base:
  "fst (enrich_all e args i fs w) = Inr rs \<Longrightarrow> map base rs = fs"
proof (induction fs arbitrary: i w rs)
  case Nil
  then show ?case by simp
next
  case (Cons f fs)
  from Cons.prems obtain r w1 rs'
    where s: "enrich_facility e args i f w = (Inr r, w1)"
      and t: "fst (enrich_all e args (i + 1) fs w1) = Inr rs'"
      and x: "rs = r # rs'"
    unfolding enrich_all_Cons_Inr by blast
  have "base r = f" using enrich_facility_Inr(1) [of e args i f w r] s by simp
  moreover have "map base rs' = fs" using t by (rule Cons.IH)
  ultimately show ?case using x by simp
qed

lemma enrich_all_length:
  "fst (enrich_all e args i fs w) = Inr rs \<Longrightarrow> length rs = length fs"
  using enrich_all_base [of e args i fs w rs] by (metis length_map)

lemma enrich_all_rank:
  "fst (enrich_all e args i fs w) = Inr rs \<Longrightarrow>
     map Local_Rank rs = [Suc i..<Suc i + length fs]"
proof (induction fs arbitrary: i w rs)
  case Nil
  then show ?case by simp
next
  case (Cons f fs)
  from Cons.prems obtain r w1 rs'
    where s: "enrich_facility e args i f w = (Inr r, w1)"
      and t: "fst (enrich_all e args (i + 1) fs w1) = Inr rs'"
      and x: "rs = r # rs'"
    unfolding enrich_all_Cons_Inr by blast
  have "Local_Rank r = Suc i" using enrich_facility_Inr(2) [of e args i f w r] s by simp
  moreover have "map Local_Rank rs' = [Suc (Suc i)..<Suc (Suc i) + length fs]"
    using Cons.IH [of "i + 1" w1 rs'] t by simp
  ultimately show ?case using x by (simp add: upt_rec)
qed

lemma enrich_all_quality:
  "fst (enrich_all e args i fs w) = Inr rs \<Longrightarrow> x \<in> set rs \<Longrightarrow>
     quality_metrics x =
       Some \<lparr>Mobility_at_Discharge =
               settled_field (fetchCMSMetric e (facility_ccn (base x)) mobility) ''mobility_percent'',
             Discharge_to_Community_Rate =
               settled_field (fetchCMSMetric e (facility_ccn (base x)) discharge)
                 ''discharge_to_community_percent'',
             Fall_with_Major_Injury_Rate =
               settled_field (fetchCMSMetric e (facility_ccn (base x)) falls)
                 ''fall_with_major_injury_percent'',
             Healthcare_Associated_Infection_Rate =
               settled_field (fetchCMSMetric e (facility_ccn (base x)) hai) ''hai_percent''\<rparr>"
proof (induction fs arbitrary: i w rs)
  case Nil
  then show ?case by simp
next
  case (Cons f fs)
  from Cons.prems(1) obtain r w1 rs'
    where s: "enrich_facility e args i f w = (Inr r, w1)"
      and t: "fst (enrich_all e args (i + 1) fs w1) = Inr rs'"
      and rs: "rs = r # rs'"
    unfolding enrich_all_Cons_Inr by blast
  from Cons.prems(2) rs have "x = r \<or> x \<in> set rs'" by simp
  then show ?case
  proof
    assume "x = r"
    then show ?thesis
      using enrich_facility_Inr(1,3) [of e args i f w r] s by simp
  next
    assume "x \<in> set rs'"
    with t show ?thesis by (rule Cons.IH)
  qed
qed

text \<open>The only failure of the loop is a rejected read of the database.\<close>

lemma cache_get_Inl:
  "cache_get read cache key = (Inl err, c) \<Longrightarrow> read key = Inl err"
  by (auto simp: cache_get_def split: if_splits option.splits sum.splits)

lemma readCacheRecord_Inl:
  "readCacheRecord e key = Inl err \<Longrightarrow> err = StoreError \<and> place_findUnique e key = Rejected"
  by (auto simp: readCacheRecord_def split: if_splits settled.splits option.splits)

lemma readSnapshot_Inl:
  "readSnapshot e key = Inl err \<Longrightarrow> err = StoreError \<and> review_findUnique e key = Rejected"
  by (auto simp: readSnapshot_def split: if_splits settled.splits option.splits)

lemma getPlaceId_Inl:
  assumes "getPlaceId e r cache f = (Inl err, c)"
  shows "err = StoreError \<and> place_findUnique e (keyForFacility (runtime e) f) = Rejected"
proof -
  obtain res c1 where g: "cache_get (readCacheRecord e) cache (keyForFacility (runtime e) f)
                            = (res, c1)"
    by force
  show ?thesis
  proof (cases res)
    case (Inl err')
    then have "err' = err"
      using assms g by (simp add: getPlaceId_def Let_def split: if_splits)
    then have "readCacheRecord e (keyForFacility (runtime e) f) = Inl err"
      using g Inl cache_get_Inl by fastforce
    then show ?thesis by (rule readCacheRecord_Inl)
  next
    case (Inr cached)
    then have False
      using assms g
      by (simp add: getPlaceId_def Let_def split: if_splits sum.splits option.splits prod.splits)
    then show ?thesis ..
  qed
qed

lemma getReviewSnapshot_Inl:
  assumes "getReviewSnapshot e svc cache pid = (Inl err, c)"
  shows "err = StoreError \<and> review_findUnique e pid = Rejected"
proof -
  obtain res c1 where g: "cache_get (readSnapshot e) cache pid = (res, c1)"
    by force
  show ?thesis
  proof (cases res)
    case (Inl err')
    then have "err' = err"
      using assms g by (simp add: getReviewSnapshot_def Let_def split: if_splits)
    then have "readSnapshot e pid = Inl err"
      using g Inl cache_get_Inl by fastforce
    then show ?thesis by (rule readSnapshot_Inl)
  next
    case (Inr cached)
    then have False
      using assms g
      by (simp add: getReviewSnapshot_def Let_def
          split: if_splits sum.splits option.splits prod.splits)
    then show ?thesis ..
  qed
qed

lemma resolve_placeId_Inl:
  assumes "resolve_placeId e args f w = (Inl err, w1)"
  shows "err = StoreError \<and> (\<exists>k. place_findUnique e k = Rejected)"
proof -
  from assms obtain r c where "getPlaceId e r (placeIdCache w) f = (Inl err, c)"
    by (auto simp: resolve_placeId_def Let_def
        split: option.splits if_splits prod.splits sum.splits)
  from getPlaceId_Inl [OF this] show ?thesis by blast
qed

lemma review_for_Inl:
  assumes "review_for e args placeId w = (Inl err, w1)"
  shows "err = StoreError \<and> (\<exists>k. review_findUnique e k = Rejected)"
proof -
  from assms obtain svc pid c where "getReviewSnapshot e svc (reviewCache w) pid = (Inl err, c)"
    by (auto simp: review_for_def split: option.splits if_splits prod.splits)
  from getReviewSnapshot_Inl [OF this] show ?thesis by blast
qed

lemma enrich_facility_Inl:
  assumes "fst (enrich_facility e args i f w) = Inl err"
  shows "err = StoreError \<and>
         ((\<exists>k. place_findUnique e k = Rejected) \<or> (\<exists>k. review_findUnique e k = Rejected))"
proof -
  obtain p w1 where p: "resolve_placeId e args f w = (p, w1)" by force
  show ?thesis
  proof (cases p)
    case (Inl err')
    then have "err' = err" using assms p by (simp add: enrich_facility_def Let_def)
    then show ?thesis using resolve_placeId_Inl [of e args f w err w1] p Inl by blast
  next
    case (Inr placeId)
    obtain v w2 where v: "review_for e args placeId w1 = (v, w2)" by force
    show ?thesis
    proof (cases v)
      case (Inl err')
      then have "err' = err" using assms p Inr v by (simp add: enrich_facility_def Let_def)
      then show ?thesis using review_for_Inl [of e args placeId w1 err w2] v Inl by blast
    next
      case (Inr snap)
      then have False using assms p \<open>p = Inr placeId\<close> v by (simp add: enrich_facility_def Let_def)
      then show ?thesis ..
    qed
  qed
qed

lemma enrich_all_Inl:
  "fst (enrich_all e args i fs w) = Inl err \<Longrightarrow>
     err = StoreError \<and>
     ((\<exists>k. place_findUnique e k = Rejected) \<or> (\<exists>k. review_findUnique e k = Rejected))"
proof (induction fs arbitrary: i w)
  case Nil
  then show ?case by simp
next
  case (Cons f fs)
  obtain r w1 where s: "enrich_facility e args i f w = (r, w1)" by force
  show ?case
  proof (cases r)
    case (Inl err')
    then have "err' = err" using Cons.prems s by simp
    then show ?thesis using enrich_facility_Inl [of e args i f w err] s Inl by simp
  next
    case (Inr x)
    obtain rs w2 where t: "enrich_all e args (i + 1) fs w1 = (rs, w2)" by force
    show ?thesis
    proof (cases rs)
      case (Inl err')
      then have "err' = err" using Cons.prems s Inr t by simp
      then show ?thesis using Cons.IH [of "i + 1" w1] t Inl by simp
    next
      case (Inr xs)
      then have False using Cons.prems s \<open>r = Inr x\<close> t by simp
      then show ?thesis ..
    qed
  qed
qed

lemma enrich_all_returns:
  assumes "\<forall>k. \<exists>v. place_findUnique e k = Fulfilled v"
    and "\<forall>k. \<exists>v. review_findUnique e k = Fulfilled v"
  shows "\<exists>rs. fst (enrich_all e args i fs w) = Inr rs"
proof (cases "fst (enrich_all e args i fs w)")
  case (Inl err)
  from enrich_all_Inl [OF this] assms have False by (metis settled.distinct(1))
  then show ?thesis ..
next
  case (Inr rs)
  then show ?thesis by blast
qed

subsection \<open>The request\<close>

lemma performAnalysis_resolved:
  assumes "hospitalName args \<noteq> []"
    and "find_hospital (runtime e) (hospitals w) (hospitalName args) = Some h"
    and "hospital_coordinates e (hospitalName args) h w = (Inr c, w1)"
  shows "fst (performAnalysis e args w) =
         (case fst (enrich_all e args 0
                 (topFacilities (options args) (ranked e (options args)
                    (withDistance e c (resolved_radius (radiusMiles (options args))) (snfs args))))
                 w1) of
            Inl err \<Rightarrow> Inl err
          | Inr results \<Rightarrow>
              Inr \<lparr>hospital_of =
                     \<lparr>hs_name = hospital_name h, hs_city = h_city h, hs_state = h_state h,
                      hs_latitude = fst c, hs_longitude = snd c\<rparr>,
                   facilities = results,
                   totalWithinRadius =
                     length (withDistance e c (resolved_radius (radiusMiles (options args)))
                               (snfs args))\<rparr>)"
  using assms
  by (cases c) (simp add: performAnalysis_def Let_def split: prod.splits sum.splits)

lemma performAnalysis_Inr:
  assumes "hospitalName args \<noteq> []"
    and "find_hospital (runtime e) (hospitals w) (hospitalName args) = Some h"
    and "hospital_coordinates e (hospitalName args) h w = (Inr c, w1)"
    and "fst (performAnalysis e args w) = Inr r"
  shows "fst (enrich_all e args 0
                 (topFacilities (options args) (ranked e (options args)
                    (withDistance e c (resolved_radius (radiusMiles (options args))) (snfs args))))
                 w1) = Inr (facilities r)"
    and "totalWithinRadius r =
           length (withDistance e c (resolved_radius (radiusMiles (options args))) (snfs args))"
  using performAnalysis_resolved [OF assms(1,2,3)] assms(4)
  by (auto split: sum.splits)

lemma performAnalysis_returns:
  assumes "hospitalName args \<noteq> []"
    and "find_hospital (runtime e) (hospitals w) (hospitalName args) = Some h"
    and "fst (hospital_coordinates e (hospitalName args) h w) = Inr c"
    and "\<forall>k. \<exists>v. place_findUnique e k = Fulfilled v"
    and "\<forall>k. \<exists>v. review_findUnique e k = Fulfilled v"
  shows "\<exists>r. fst (performAnalysis e args w) = Inr r"
proof -
  obtain w1 where hc: "hospital_coordinates e (hospitalName args) h w = (Inr c, w1)"
    using assms(3) by (cases "hospital_coordinates e (hospitalName args) h w") auto
  obtain rs where "fst (enrich_all e args 0
                 (topFacilities (options args) (ranked e (options args)
                    (withDistance e c (resolved_radius (radiusMiles (options args))) (snfs args))))
                 w1) = Inr rs"
    using enrich_all_returns [OF assms(4,5)] by blast
  then show ?thesis using performAnalysis_resolved [OF assms(1,2) hc] by simp
qed

lemma topFacilities_subset: "set (topFacilities opts rs) \<subseteq> set rs"
  by (simp add: topFacilities_def set_slice0)

lemma topFacilities_length: "length (topFacilities opts rs) \<le> length rs"
  by (simp add: topFacilities_def length_slice0)

lemma set_ranked [simp]: "set (ranked e opts wd) = set wd"
  by (simp add: ranked_def)

lemma length_ranked [simp]: "length (ranked e opts wd) = length wd"
  by (simp add: ranked_def)

lemma js_le_cases:
  "js_le d radius \<Longrightarrow>
   \<exists>x. d = JNum x \<and>
       (case radius of Undefined \<Rightarrow> False | Null \<Rightarrow> x \<le> 0
        | Val (JNum y) \<Rightarrow> x \<le> y | Val JNaN \<Rightarrow> False)"
  by (cases d; cases radius) (auto split: jsnum.splits)

lemma slice0_five: "length (slice0 xs 5) = min 5 (length xs)"
  by (simp add: slice0_def truncate_toward_zero_def Let_def)

lemmas string_eval = sample_host_def ascii_trim_def ascii_upper_def ascii_lower_def
  upper_char_def lower_char_def is_space_def

lemma runtime_sample [simp]:
  "runtime offline_env = sample_host"
  "runtime geocoding_env = sample_host"
  "runtime place_store_down_env = sample_host"
  "runtime review_store_down_env = sample_host"
  by (simp_all add: offline_env_def geocoding_env_def place_store_down_env_def
      review_store_down_env_def)

lemma sample_find:
  "find_hospital sample_host (hospitals sample_world) sample_name = Some loaded_hospital"
  by (simp add: find_hospital_def sample_world_def name_matches_def bare_hospital_def
      located_hospital_def loaded_hospital_def sample_name_def string_eval)

lemma sample_coordinates:
  "fst (hospital_coordinates geocoding_env sample_name loaded_hospital sample_world)
     = Inr (Val (JNum 36), Val (JNum (- 82)))"
  by (simp add: hospital_coordinates_def geocoding_env_def offline_env_def loaded_hospital_def Let_def)

lemma geocoding_env_store:
  "\<forall>k. \<exists>v. place_findUnique geocoding_env k = Fulfilled v"
  "\<forall>k. \<exists>v. review_findUnique geocoding_env k = Fulfilled v"
  by (simp_all add: geocoding_env_def offline_env_def)

lemmas resolve_defs = resolveMetricValue_def historical_latest_def history_years_def metric_at_def Let_def

lemma sorted_last_greatest:
  "sorted (xs::nat list) \<Longrightarrow> y \<in> set xs \<Longrightarrow> y \<le> last xs"
  by (induction xs) (auto split: if_splits)

lemma sorted_hd_least:
  "sorted (xs::nat list) \<Longrightarrow> y \<in> set xs \<Longrightarrow> hd xs \<le> y"
  by (cases xs) auto

lemma history_years_set:
  "set (history_years facility) =
     (case dhistorical_metrics facility of None \<Rightarrow> {} | Some h \<Rightarrow> fst ` set h)"
  by (simp add: history_years_def split: option.splits)

lemma history_years_sorted: "sorted (history_years facility)"
  by (simp add: history_years_def split: option.splits)

lemma sample_resolves:
  "hospitalName (sample_args sample_name opts) \<noteq> [] \<and>
   find_hospital (runtime geocoding_env) (hospitals sample_world)
     (hospitalName (sample_args sample_name opts)) = Some loaded_hospital \<and>
   fst (hospital_coordinates geocoding_env (hospitalName (sample_args sample_name opts))
          loaded_hospital sample_world) = Inr (Val (JNum 36), Val (JNum (- 82)))"
  using sample_find sample_coordinates by (simp add: sample_args_def sample_name_def)







subsection \<open>The sort\<close>




















subsection \<open>Failures of the HTTP collaborators\<close>

text \<open>
  As long as the database answers the reads of the two caches, the analysis of a
  resolvable hospital returns the whole ranked list up to the limit, ranked
  \<open>1, 2, ...\<close>, whatever the metrics, find-place and place-details requests answer and
  whether or not the writes of the caches succeed; the quality metrics are attached, with
  each metric whose fetch failed set to \<open>null\<close>.
\<close>

lemma http_failures_absorbed:
  assumes "hospitalName args \<noteq> []"
    and "find_hospital (runtime e) (hospitals w) (hospitalName args) = Some h"
    and "fst (hospital_coordinates e (hospitalName args) h w) = Inr c"
    and "\<forall>k. \<exists>v. place_findUnique e k = Fulfilled v"
    and "\<forall>k. \<exists>v. review_findUnique e k = Fulfilled v"
  shows "\<exists>r. fst (performAnalysis e args w) = Inr r \<and>
           map base (facilities r) =
             topFacilities (options args) (ranked e (options args)
               (withDistance e c (resolved_radius (radiusMiles (options args))) (snfs args))) \<and>
           map Local_Rank (facilities r) = [1..<Suc (length (facilities r))] \<and>
           (\<forall>x\<in>set (facilities r). \<exists>q. quality_metrics x = Some q \<and>
              ((\<exists>err. fetchCMSMetric e (facility_ccn (base x)) mobility = Inl err) \<longrightarrow>
                 Mobility_at_Discharge q = None) \<and>
              ((\<exists>err. fetchCMSMetric e (facility_ccn (base x)) discharge = Inl err) \<longrightarrow>
                 Discharge_to_Community_Rate q = None) \<and>
              ((\<exists>err. fetchCMSMetric e (facility_ccn (base x)) falls = Inl err) \<longrightarrow>
                 Fall_with_Major_Injury_Rate q = None) \<and>
              ((\<exists>err. fetchCMSMetric e (facility_ccn (base x)) hai = Inl err) \<longrightarrow>
                 Healthcare_Associated_Infection_Rate q = None))"
proof -
  obtain w1 where hc: "hospital_coordinates e (hospitalName args) h w = (Inr c, w1)"
    using assms(3) by (cases "hospital_coordinates e (hospitalName args) h w") auto
  let ?top = "topFacilities (options args) (ranked e (options args)
               (withDistance e c (resolved_radius (radiusMiles (options args))) (snfs args)))"
  obtain r where ret: "fst (performAnalysis e args w) = Inr r"
    using performAnalysis_returns [OF assms] by blast
  have en: "fst (enrich_all e args 0 ?top w1) = Inr (facilities r)"
    by (rule performAnalysis_Inr(1) [OF assms(1,2) hc ret])
  have b: "map base (facilities r) = ?top" using en by (rule enrich_all_base)
  have rk: "map Local_Rank (facilities r) = [1..<Suc (length (facilities r))]"
    using enrich_all_rank [OF en] enrich_all_length [OF en] by simp
  have q: "\<exists>q. quality_metrics x = Some q \<and>
              ((\<exists>err. fetchCMSMetric e (facility_ccn (base x)) mobility = Inl err) \<longrightarrow>
                 Mobility_at_Discharge q = None) \<and>
              ((\<exists>err. fetchCMSMetric e (facility_ccn (base x)) discharge = Inl err) \<longrightarrow>
                 Discharge_to_Community_Rate q = None) \<and>
              ((\<exists>err. fetchCMSMetric e (facility_ccn (base x)) falls = Inl err) \<longrightarrow>
                 Fall_with_Major_Injury_Rate q = None) \<and>
              ((\<exists>err. fetchCMSMetric e (facility_ccn (base x)) hai = Inl err) \<longrightarrow>
                 Healthcare_Associated_Infection_Rate q = None)"
    if "x \<in> set (facilities r)" for x
    using enrich_all_quality [OF en that] by (auto simp: settled_field_failed)
  show ?thesis
    using ret b rk q by blast
qed


section \<open>Evaluations on the sample data\<close>

lemma stale_resolves:
  "hospitalName stale_args \<noteq> [] \<and>
   find_hospital (runtime geocoding_env) (hospitals stale_world) (hospitalName stale_args)
     = Some loaded_hospital \<and>
   fst (hospital_coordinates geocoding_env (hospitalName stale_args) loaded_hospital stale_world)
     = Inr (Val (JNum 36), Val (JNum (- 82)))"
proof -
  have "hospitals stale_world = hospitals sample_world" by (simp add: stale_world_def)
  moreover have "hospitalName stale_args = sample_name" by (simp add: stale_args_def sample_args_def)
  moreover have "fst (hospital_coordinates geocoding_env sample_name loaded_hospital stale_world)
     = Inr (Val (JNum 36), Val (JNum (- 82)))"
    by (simp add: hospital_coordinates_def geocoding_env_def offline_env_def loaded_hospital_def
        Let_def)
  ultimately show ?thesis using sample_find by (simp add: sample_name_def)
qed

lemma outage_eval:
  "(case fst (performAnalysis geocoding_env (sample_args sample_name default_options)
                sample_world) of
      Inl err \<Rightarrow> None
    | Inr r \<Rightarrow> Some (map (\<lambda>x. (facility_name (base x), Local_Rank x, quality_metrics x,
                                  review_enrichment x)) (facilities r)))
   = Some (map (\<lambda>(n, i). (Some n, i,
                 Some \<lparr>Mobility_at_Discharge = None, Discharge_to_Community_Rate = None,
                       Fall_with_Major_Injury_Rate = None,
                       Healthcare_Associated_Infection_Rate = None\<rparr>, None))
             [(''Foxtrot Lodge'', 1), (''Charlie Nursing'', 2), (''alpha care'', 3),
              (''Bravo Rehab'', 4)])"
  by code_simp

lemma stale_eval:
  "(case fst (performAnalysis geocoding_env stale_args stale_world) of
      Inl err \<Rightarrow> None
    | Inr r \<Rightarrow> Some (map (\<lambda>x. (quality_metrics x, review_enrichment x)) (facilities r)))
   = Some [(Some \<lparr>Mobility_at_Discharge = None, Discharge_to_Community_Rate = None,
                  Fall_with_Major_Injury_Rate = None,
                  Healthcare_Associated_Infection_Rate = None\<rparr>, Some stale_snapshot)]"
  by code_simp

lemma store_down_resolves:
  "find_hospital (runtime place_store_down_env) (hospitals sample_world) sample_name
     = Some loaded_hospital"
  "fst (hospital_coordinates place_store_down_env sample_name loaded_hospital sample_world)
     = Inr (Val (JNum 36), Val (JNum (- 82)))"
  "find_hospital (runtime review_store_down_env) (hospitals sample_world) sample_name
     = Some loaded_hospital"
  "fst (hospital_coordinates review_store_down_env sample_name loaded_hospital sample_world)
     = Inr (Val (JNum 36), Val (JNum (- 82)))"
  by code_simp+

lemma store_down_eval:
  "fst (performAnalysis place_store_down_env (sample_args sample_name default_options)
          sample_world) = Inl StoreError"
  "fst (performAnalysis review_store_down_env stale_args sample_world) = Inl StoreError"
  by code_simp+

lemma write_down_eval:
  "(case fst (performAnalysis place_write_down_env (sample_args sample_name default_options)
                sample_world) of
      Inl err \<Rightarrow> None
    | Inr r \<Rightarrow> Some (map (\<lambda>x. (Local_Rank x, review_enrichment x)) (facilities r)))
   = Some [(1, None), (2, None), (3, None), (4, None)]"
  by code_simp

lemma store_down_inputs:
  "hospitalName (sample_args sample_name default_options) = sample_name"
  "hospitalName stale_args = sample_name"
  "map google_place_id (snfs stale_args) = [Some ''place-charlie'']"
  "list_all (\<lambda>f. initial_placeId (sample_args sample_name default_options)
                    (with_distance f JNaN) = None)
     (snfs (sample_args sample_name default_options))"
  "findplace_fetch place_write_down_env =
     (\<lambda>q b. Inr \<lparr>fp_ok = True, fp_status = ''OK'',
                     fp_candidates =
                       [\<lparr>c_place_id = Some ''place-found'', c_name = Some ''Found'',
                         c_formatted_address = None, c_location = None\<rparr>]\<rparr>)"
  "place_upsert place_write_down_env = (\<lambda>k v. Rejected)"
  "place_findUnique place_store_down_env = (\<lambda>k. Rejected)"
  "review_findUnique review_store_down_env = (\<lambda>k. Rejected)"
  by (simp_all add: sample_args_def stale_args_def listed_charlie_def sample_facility_def
      sample_snfs_def place_store_down_env_def review_store_down_env_def initial_placeId_def
      place_write_down_env_def
      normalize_ccn_def facility_ccn_def or_str_def or_cell_def Let_def with_distance_def
      facility.defs dfacility.defs)

lemma normalize_three:
  "normalize_ccn (Some (CStr ''15009'')) = Some ''015009''"
  "normalize_ccn (Some (CNum 15009)) = Some ''015009''"
  "normalize_ccn (Some (CStr ''015009'')) = Some ''015009''"
  by (simp_all add: normalize_ccn_def padStart_def string_of_nat.simps)

lemma toString_numeric_ccn: "toString sample_host (Some (CNum 15009)) = ''15009''"
  by (simp add: toString_def string_of_nat.simps string_eval)

lemma snf_row_string: "mapSNFRow sample_host (snf_row (CStr ''15009'')) = Some (hd sample_snfs)"
  by code_simp

lemma sample_timelines_loaded:
  "loadHistoricalSNFQuality sample_host sample_year_files [2022, 2024]
     = [(''015009'', sample_timeline)]"
  by code_simp

lemma sample_join:
  "(case fst (performAnalysis geocoding_env (sample_args sample_name default_options) sample_world) of
      Inl err \<Rightarrow> None
    | Inr r \<Rightarrow>
        Some (map (\<lambda>x. (CCN (base x), historical_metrics x, historical_years_available x,
                         regulatory_history x))
                (filter (\<lambda>x. facility_name (base x) = Some ''Bravo Rehab'') (facilities r))))
   = Some [(Some (CStr ''15009''), [], 0, None)]"
  by code_simp

lemma sample_lookup:
  "historicalSnfTimelines (sample_args sample_name default_options) ''015009''
     = Some sample_timeline"
  "historicalRegulatory (sample_args sample_name default_options) ''015009''
     = Some sample_regulatory"
  "historical_for (sample_args sample_name default_options) (Some (CStr ''015009''))
     = years sample_timeline"
  "historical_for (sample_args sample_name default_options) (Some (CStr ''15009'')) = []"
  "historical_for (sample_args sample_name default_options) (Some (CNum 15009)) = []"
  "regulatory_for (sample_args sample_name default_options) (Some (CStr ''15009'')) = None"
  by (simp_all add: sample_args_def historical_for_def regulatory_for_def property_key_def
      Object_prototype_members_def string_of_nat.simps)

lemma length_padStart: "n \<le> length (padStart n c s)"
  by (simp add: padStart_def)

lemma normalizeCCNFromRow_never_empty: "normalizeCCNFromRow h r \<noteq> []"
proof -
  have "6 \<le> length (normalizeCCNFromRow h r)"
    unfolding normalizeCCNFromRow_def by (rule length_padStart)
  then show ?thesis by auto
qed

lemma normalizeCCNFromRow_missing:
  assumes "pickField h r [''cms_certification_number_(ccn)'', ''federal_provider_number'',
                          ''provider_number'', ''ccn'', ''federal provider number''] = None"
  shows "normalizeCCNFromRow h r = ''000000''"
  unfolding normalizeCCNFromRow_def assms
  by (simp add: toString_def padStart_def eval_nat_numeral)

lemma ghost_ccn: "map (normalizeCCNFromRow sample_host) ghost_rows = [''000000'', ''000000'']"
  by code_simp

lemma ghost_guard:
  "map (\<lambda>r. trim sample_host (normalizeCCNFromRow sample_host r) = []) ghost_rows
     = [False, False]"
  by code_simp

lemma ghost_year:
  "loadYear sample_host 2022 (ghost_year_files 2022) =
     [\<lparr>e_ccn = ''000000'', e_year = 2022, e_facility_name = ''Ghost Home'', e_address = [],
       e_city = [], e_state = [], e_zip_code = [], e_county_name = [], e_phone_number = [],
       metrics = [(''pressure_ulcer_rate'', 1.5), (''fall_with_major_injury_rate'', 2.5)]\<rparr>]"
  by code_simp

lemma ghost_timelines:
  "map fst (loadHistoricalSNFQuality sample_host ghost_year_files [2022]) = [''000000'']"
  by code_simp

section \<open>Properties of the ranking and analysis engine\<close>

text \<open>
  C1.  Whenever the hospital resolves (the name matches and its coordinates are read or
  geocoded), every result of the analysis has at most \<open>totalWithinRadius\<close> facilities, and
  every returned facility has a numeric distance that is at most the radius in force:
  \<open>radiusMiles\<close> itself, 50 when it is undefined, 0 when it is \<open>null\<close>; with a NaN radius
  no facility is returned.  The analysis does return a result whenever the database
  answers the reads of the two enrichment caches.
\<close>

theorem facilities_within_radius:
  assumes "hospitalName args \<noteq> []"
    and "find_hospital (runtime e) (hospitals w) (hospitalName args) = Some h"
    and "fst (hospital_coordinates e (hospitalName args) h w) = Inr c"
  shows "(\<forall>r. fst (performAnalysis e args w) = Inr r \<longrightarrow>
             length (facilities r) \<le> totalWithinRadius r \<and>
             (\<forall>f\<in>set (facilities r). \<exists>d. distance (base f) = JNum d \<and>
                (case radiusMiles (options args) of
                   Undefined \<Rightarrow> d \<le> 50
                 | Null \<Rightarrow> d \<le> 0
                 | Val (JNum x) \<Rightarrow> d \<le> x
                 | Val JNaN \<Rightarrow> False))) \<and>
         ((\<forall>k. \<exists>v. place_findUnique e k = Fulfilled v) \<and>
          (\<forall>k. \<exists>v. review_findUnique e k = Fulfilled v) \<longrightarrow>
            (\<exists>r. fst (performAnalysis e args w) = Inr r))"
proof -
  obtain w1 where hc: "hospital_coordinates e (hospitalName args) h w = (Inr c, w1)"
    using assms(3) by (cases "hospital_coordinates e (hospitalName args) h w") auto
  let ?radius = "resolved_radius (radiusMiles (options args))"
  let ?wd = "withDistance e c ?radius (snfs args)"
  let ?top = "topFacilities (options args) (ranked e (options args) ?wd)"
  have props: "length (facilities r) \<le> totalWithinRadius r \<and>
             (\<forall>f\<in>set (facilities r). \<exists>d. distance (base f) = JNum d \<and>
                (case radiusMiles (options args) of
                   Undefined \<Rightarrow> d \<le> 50
                 | Null \<Rightarrow> d \<le> 0
                 | Val (JNum x) \<Rightarrow> d \<le> x
                 | Val JNaN \<Rightarrow> False))"
    if ret: "fst (performAnalysis e args w) = Inr r" for r
  proof -
    have en: "fst (enrich_all e args 0 ?top w1) = Inr (facilities r)"
      by (rule performAnalysis_Inr(1) [OF assms(1,2) hc ret])
    have tot: "totalWithinRadius r = length ?wd"
      by (rule performAnalysis_Inr(2) [OF assms(1,2) hc ret])
    have len: "length (facilities r) \<le> totalWithinRadius r"
      using topFacilities_length [of "options args" "ranked e (options args) ?wd"]
        enrich_all_length [OF en] tot by simp
    have within: "\<exists>d. distance (base f) = JNum d \<and>
                (case radiusMiles (options args) of
                   Undefined \<Rightarrow> d \<le> 50
                 | Null \<Rightarrow> d \<le> 0
                 | Val (JNum x) \<Rightarrow> d \<le> x
                 | Val JNaN \<Rightarrow> False)" if "f \<in> set (facilities r)" for f
    proof -
      have "base f \<in> set (map base (facilities r))" using that by simp
      then have "base f \<in> set ?top" by (simp only: enrich_all_base [OF en])
      then have "base f \<in> set ?wd"
        using topFacilities_subset [of "options args" "ranked e (options args) ?wd"] by auto
      then have "js_le (distance (base f)) ?radius" by (rule withDistance_within)
      from js_le_cases [OF this] show ?thesis
        by (auto simp: resolved_radius_def DEFAULT_RADIUS_MILES_def split: js.splits jsnum.splits)
    qed
    show ?thesis using len within by blast
  qed
  have returns: "\<exists>r. fst (performAnalysis e args w) = Inr r"
    if "(\<forall>k. \<exists>v. place_findUnique e k = Fulfilled v) \<and>
        (\<forall>k. \<exists>v. review_findUnique e k = Fulfilled v)"
    using performAnalysis_returns [OF assms] that by blast
  show ?thesis using props returns by blast
qed

theorem facilities_within_radius_witness:
  "hospitalName (sample_args sample_name default_options) \<noteq> [] \<and>
   find_hospital (runtime geocoding_env) (hospitals sample_world)
     (hospitalName (sample_args sample_name default_options)) = Some loaded_hospital \<and>
   fst (hospital_coordinates geocoding_env (hospitalName (sample_args sample_name default_options))
          loaded_hospital sample_world) = Inr (Val (JNum 36), Val (JNum (- 82))) \<and>
   (\<forall>k. \<exists>v. place_findUnique geocoding_env k = Fulfilled v) \<and>
   (\<forall>k. \<exists>v. review_findUnique geocoding_env k = Fulfilled v) \<and>
   (\<exists>r. fst (performAnalysis geocoding_env (sample_args sample_name default_options) sample_world)
          = Inr r \<and>
        length (facilities r) \<le> totalWithinRadius r \<and>
        list_all (\<lambda>f. \<exists>d. distance (base f) = JNum d \<and> d \<le> 50) (facilities r))"
proof -
  note s = sample_resolves [of default_options]
  note t = facilities_within_radius [OF s [THEN conjunct1] s [THEN conjunct2, THEN conjunct1]
      s [THEN conjunct2, THEN conjunct2]]
  have rad: "radiusMiles (options (sample_args sample_name default_options)) = Undefined"
    by (simp add: sample_args_def default_options_def)
  obtain r where
    r: "fst (performAnalysis geocoding_env (sample_args sample_name default_options) sample_world)
          = Inr r"
    using t [THEN conjunct2, THEN mp, OF conjI [OF geocoding_env_store]] by blast
  have "length (facilities r) \<le> totalWithinRadius r \<and>
        list_all (\<lambda>f. \<exists>d. distance (base f) = JNum d \<and> d \<le> 50) (facilities r)"
    using t [THEN conjunct1, THEN spec, THEN mp, OF r] by (simp add: rad list_all_iff)
  then have "\<exists>r. fst (performAnalysis geocoding_env (sample_args sample_name default_options)
                        sample_world) = Inr r \<and>
        length (facilities r) \<le> totalWithinRadius r \<and>
        list_all (\<lambda>f. \<exists>d. distance (base f) = JNum d \<and> d \<le> 50) (facilities r)"
    using r by blast
  then show ?thesis using s geocoding_env_store by (intro conjI) blast+
qed

text \<open>
  C10.  When \<open>options.limit\<close> is 0, NaN, \<open>null\<close>, the empty string or \<open>false\<close>, the
  default limit of 5 is applied at truncation: every result of the analysis of a
  resolvable hospital has exactly \<open>min 5 totalWithinRadius\<close> facilities.  The analysis
  does return a result whenever the database answers the reads of the two enrichment
  caches.
\<close>

theorem falsy_limit_defaults_to_five:
  assumes "limit (options args) \<in>
             {Null, Val (LimNum (JNum 0)), Val (LimNum JNaN), Val LimEmptyString, Val LimFalse}"
    and "hospitalName args \<noteq> []"
    and "find_hospital (runtime e) (hospitals w) (hospitalName args) = Some h"
    and "fst (hospital_coordinates e (hospitalName args) h w) = Inr c"
  shows "(\<forall>r. fst (performAnalysis e args w) = Inr r \<longrightarrow>
             length (facilities r) = min 5 (totalWithinRadius r)) \<and>
         ((\<forall>k. \<exists>v. place_findUnique e k = Fulfilled v) \<and>
          (\<forall>k. \<exists>v. review_findUnique e k = Fulfilled v) \<longrightarrow>
            (\<exists>r. fst (performAnalysis e args w) = Inr r))"
proof -
  obtain w1 where hc: "hospital_coordinates e (hospitalName args) h w = (Inr c, w1)"
    using assms(4) by (cases "hospital_coordinates e (hospitalName args) h w") auto
  have "limit_or_default (destructured_limit (limit (options args))) = 5"
    using assms(1) by (auto simp: destructured_limit_def DEFAULT_LIMIT_def)
  then have top: "length (topFacilities (options args) rs) = min 5 (length rs)"
    for rs :: "dfacility list"
    by (simp add: topFacilities_def slice0_five)
  have five: "length (facilities r) = min 5 (totalWithinRadius r)"
    if ret: "fst (performAnalysis e args w) = Inr r" for r
    using enrich_all_length [OF performAnalysis_Inr(1) [OF assms(2,3) hc ret]]
      performAnalysis_Inr(2) [OF assms(2,3) hc ret] top
    by simp
  have returns: "\<exists>r. fst (performAnalysis e args w) = Inr r"
    if "(\<forall>k. \<exists>v. place_findUnique e k = Fulfilled v) \<and>
        (\<forall>k. \<exists>v. review_findUnique e k = Fulfilled v)"
    using performAnalysis_returns [OF assms(2,3,4)] that by blast
  show ?thesis using five returns by blast
qed

theorem falsy_limit_defaults_to_five_witness:
  "limit (options (sample_args sample_name zero_limit_options)) \<in>
     {Null, Val (LimNum (JNum 0)), Val (LimNum JNaN), Val LimEmptyString, Val LimFalse} \<and>
   hospitalName (sample_args sample_name zero_limit_options) \<noteq> [] \<and>
   find_hospital (runtime geocoding_env) (hospitals sample_world)
     (hospitalName (sample_args sample_name zero_limit_options)) = Some loaded_hospital \<and>
   fst (hospital_coordinates geocoding_env (hospitalName (sample_args sample_name zero_limit_options))
          loaded_hospital sample_world) = Inr (Val (JNum 36), Val (JNum (- 82))) \<and>
   (\<forall>k. \<exists>v. place_findUnique geocoding_env k = Fulfilled v) \<and>
   (\<forall>k. \<exists>v. review_findUnique geocoding_env k = Fulfilled v) \<and>
   (\<exists>r. fst (performAnalysis geocoding_env (sample_args sample_name zero_limit_options) sample_world)
          = Inr r \<and>
        length (facilities r) = min 5 (totalWithinRadius r))"
proof -
  have l: "limit (options (sample_args sample_name zero_limit_options)) \<in>
     {Null, Val (LimNum (JNum 0)), Val (LimNum JNaN), Val LimEmptyString, Val LimFalse}"
    by (simp add: sample_args_def zero_limit_options_def default_options_def)
  note s = sample_resolves [of zero_limit_options]
  note t = falsy_limit_defaults_to_five [OF l s [THEN conjunct1]
      s [THEN conjunct2, THEN conjunct1] s [THEN conjunct2, THEN conjunct2]]
  obtain r where
    r: "fst (performAnalysis geocoding_env (sample_args sample_name zero_limit_options) sample_world)
          = Inr r"
    using t [THEN conjunct2, THEN mp, OF conjI [OF geocoding_env_store]] by blast
  have "length (facilities r) = min 5 (totalWithinRadius r)"
    by (rule t [THEN conjunct1, THEN spec, THEN mp, OF r])
  then have "\<exists>r. fst (performAnalysis geocoding_env (sample_args sample_name zero_limit_options)
                        sample_world) = Inr r \<and>
        length (facilities r) = min 5 (totalWithinRadius r)"
    using r by blast
  then show ?thesis using l s geocoding_env_store by (intro conjI) blast+
qed






text \<open>
  C8 fails on the code.  \<open>performAnalysis\<close> reads \<open>hospital.Latitude\<close> and
  \<open>hospital.Longitude\<close>, which no record of the hospitals loader has: the hospital that
  \<open>mapHospitalRow\<close> builds from \<open>hospital_row\<close> carries the coordinates (36, -82), the
  geocoder is called for it all the same, and with the geocoder down the request fails.
\<close>

theorem loaded_hospital_is_geocoded:
  "mapHospitalRow sample_host hospital_row = Some loaded_hospital \<and>
   h_latitude loaded_hospital = Val (JNum 36) \<and>
   h_longitude loaded_hospital = Val (JNum (- 82)) \<and>
   find_hospital (runtime offline_env) (hospitals sample_world) sample_name
     = Some loaded_hospital \<and>
   geocode_calls (snd (performAnalysis offline_env (sample_args sample_name default_options)
                         sample_world)) = [geocode_request loaded_hospital] \<and>
   fst (performAnalysis offline_env (sample_args sample_name default_options) sample_world)
     = Inl GeocodingFailed"
  by code_simp



text \<open>
  C7 fails on the code.  The three spellings of the identifier normalize to \<open>015009\<close>,
  and the timelines are keyed by the padded identifier; but the facilities loader keeps
  the identifier as it came, and \<open>performAnalysis\<close> looks the timelines up under that raw
  identifier, although it has the padded one at hand for the place-id seed table.  The
  facility loaded with \<open>15009\<close> comes back without its quality and regulatory history;
  only the spelling \<open>015009\<close> finds them.
\<close>

theorem unpadded_ccn_misses_timelines:
  "normalize_ccn (Some (CStr ''15009'')) = Some ''015009'' \<and>
   normalize_ccn (Some (CNum 15009)) = Some ''015009'' \<and>
   normalize_ccn (Some (CStr ''015009'')) = Some ''015009'' \<and>
   toString sample_host (Some (CNum 15009)) = ''15009'' \<and>
   mapSNFRow sample_host (snf_row (CStr ''15009'')) = Some (hd sample_snfs) \<and>
   loadHistoricalSNFQuality sample_host sample_year_files [2022, 2024]
     = [(''015009'', sample_timeline)] \<and>
   historicalSnfTimelines (sample_args sample_name default_options) ''015009''
     = Some sample_timeline \<and>
   historicalRegulatory (sample_args sample_name default_options) ''015009''
     = Some sample_regulatory \<and>
   historical_for (sample_args sample_name default_options) (Some (CStr ''015009''))
     = years sample_timeline \<and>
   historical_for (sample_args sample_name default_options) (Some (CStr ''15009'')) = [] \<and>
   historical_for (sample_args sample_name default_options) (Some (CNum 15009)) = [] \<and>
   regulatory_for (sample_args sample_name default_options) (Some (CStr ''15009'')) = None \<and>
   (case fst (performAnalysis geocoding_env (sample_args sample_name default_options) sample_world) of
      Inl err \<Rightarrow> None
    | Inr r \<Rightarrow>
        Some (map (\<lambda>x. (CCN (base x), historical_metrics x, historical_years_available x,
                         regulatory_history x))
                (filter (\<lambda>x. facility_name (base x) = Some ''Bravo Rehab'') (facilities r))))
   = Some [(Some (CStr ''15009''), [], 0, None)]"
  by (intro conjI normalize_three toString_numeric_ccn snf_row_string sample_timelines_loaded
      sample_lookup sample_join)


text \<open>
  C6 fails on the code.  \<open>performAnalysis\<close> guards the metrics fetch with a \<open>try\<close> block,
  and \<open>getPlaceId\<close> and \<open>getReviewSnapshot\<close> guard their HTTP call and the write of their
  cache; but both read their cache before the \<open>try\<close> block, and \<open>performAnalysis\<close> awaits
  both unguarded.  With every HTTP collaborator down and the database answering, the
  analysis of the sample hospital returns its four facilities in rank, with empty quality
  metrics and without reviews, and a stale snapshot of the memory layer is handed back;
  with the database rejecting the write of the place-id cache, it returns them as well.
  With the database rejecting the read of the place-id cache, or the read of the review
  cache, the same hospital resolves and the request fails.
\<close>

theorem store_failure_aborts_analysis:
  "(case fst (performAnalysis geocoding_env (sample_args sample_name default_options)
                sample_world) of
      Inl err \<Rightarrow> None
    | Inr r \<Rightarrow> Some (map (\<lambda>x. (facility_name (base x), Local_Rank x, quality_metrics x,
                                  review_enrichment x)) (facilities r)))
   = Some (map (\<lambda>(n, i). (Some n, i,
                 Some \<lparr>Mobility_at_Discharge = None, Discharge_to_Community_Rate = None,
                       Fall_with_Major_Injury_Rate = None,
                       Healthcare_Associated_Infection_Rate = None\<rparr>, None))
             [(''Foxtrot Lodge'', 1), (''Charlie Nursing'', 2), (''alpha care'', 3),
              (''Bravo Rehab'', 4)]) \<and>
   (case fst (performAnalysis geocoding_env stale_args stale_world) of
      Inl err \<Rightarrow> None
    | Inr r \<Rightarrow> Some (map (\<lambda>x. (quality_metrics x, review_enrichment x)) (facilities r)))
   = Some [(Some \<lparr>Mobility_at_Discharge = None, Discharge_to_Community_Rate = None,
                  Fall_with_Major_Injury_Rate = None,
                  Healthcare_Associated_Infection_Rate = None\<rparr>, Some stale_snapshot)] \<and>
   (case fst (performAnalysis place_write_down_env (sample_args sample_name default_options)
                sample_world) of
      Inl err \<Rightarrow> None
    | Inr r \<Rightarrow> Some (map (\<lambda>x. (Local_Rank x, review_enrichment x)) (facilities r)))
   = Some [(1, None), (2, None), (3, None), (4, None)] \<and>
   hospitalName (sample_args sample_name default_options) = sample_name \<and>
   hospitalName stale_args = sample_name \<and>
   map google_place_id (snfs stale_args) = [Some ''place-charlie''] \<and>
   list_all (\<lambda>f. initial_placeId (sample_args sample_name default_options)
                    (with_distance f JNaN) = None)
     (snfs (sample_args sample_name default_options)) \<and>
   findplace_fetch place_write_down_env =
     (\<lambda>q b. Inr \<lparr>fp_ok = True, fp_status = ''OK'',
                     fp_candidates =
                       [\<lparr>c_place_id = Some ''place-found'', c_name = Some ''Found'',
                         c_formatted_address = None, c_location = None\<rparr>]\<rparr>) \<and>
   place_upsert place_write_down_env = (\<lambda>k v. Rejected) \<and>
   place_findUnique place_store_down_env = (\<lambda>k. Rejected) \<and>
   review_findUnique review_store_down_env = (\<lambda>k. Rejected) \<and>
   find_hospital (runtime place_store_down_env) (hospitals sample_world) sample_name
     = Some loaded_hospital \<and>
   fst (hospital_coordinates place_store_down_env sample_name loaded_hospital sample_world)
     = Inr (Val (JNum 36), Val (JNum (- 82))) \<and>
   find_hospital (runtime review_store_down_env) (hospitals sample_world) sample_name
     = Some loaded_hospital \<and>
   fst (hospital_coordinates review_store_down_env sample_name loaded_hospital sample_world)
     = Inr (Val (JNum 36), Val (JNum (- 82))) \<and>
   fst (performAnalysis place_store_down_env (sample_args sample_name default_options)
          sample_world) = Inl StoreError \<and>
   fst (performAnalysis review_store_down_env stale_args sample_world) = Inl StoreError"
  by (intro conjI outage_eval stale_eval write_down_eval store_down_inputs store_down_resolves
      store_down_eval)

section \<open>Properties of the historical loader\<close>

text \<open>
  C9 fails on the code.  \<open>normalizeCCNFromRow\<close> pads before the loader tests for an empty
  identifier, so the test never holds: a row without an identifier is kept under the key
  \<open>000000\<close>, where the rows of different facilities merge into one timeline entry.
\<close>

theorem missing_ccn_rows_are_kept:
  "map (normalizeCCNFromRow sample_host) ghost_rows = [''000000'', ''000000''] \<and>
   map (\<lambda>r. trim sample_host (normalizeCCNFromRow sample_host r) = []) ghost_rows
     = [False, False] \<and>
   loadYear sample_host 2022 (ghost_year_files 2022) =
     [\<lparr>e_ccn = ''000000'', e_year = 2022, e_facility_name = ''Ghost Home'', e_address = [],
       e_city = [], e_state = [], e_zip_code = [], e_county_name = [], e_phone_number = [],
       metrics = [(''pressure_ulcer_rate'', 1.5), (''fall_with_major_injury_rate'', 2.5)]\<rparr>] \<and>
   map fst (loadHistoricalSNFQuality sample_host ghost_year_files [2022]) = [''000000'']"
  by (intro conjI ghost_ccn ghost_guard ghost_year ghost_timelines)

section \<open>Properties of the metric resolver\<close>

text \<open>
  C4.  A facility that has a current value for a metric resolves to that value with
  source "current", whatever its history holds; and a facility without a current value
  whose history is 2022 with value 10 and 2024 with value 14 resolves, for a
  higher-is-better metric, to 14 with source "historical" and a good trend of delta 4.
\<close>

theorem resolve_prefers_current:
  "(current_value facility metric = Some v \<longrightarrow>
      rsource (resolveMetricValue facility metric) = Some Current \<and>
      rvalue (resolveMetricValue facility metric) = Some v)
   \<and>
   (current_value facility metric = None \<and> higherIsBetter metric \<and>
    dhistorical_metrics facility = Some [(2022, m1), (2024, m2)] \<and>
    map_of m1 (historicalKey metric) = Some 10 \<and> map_of m2 (historicalKey metric) = Some 14 \<longrightarrow>
      rvalue (resolveMetricValue facility metric) = Some 14 \<and>
      rsource (resolveMetricValue facility metric) = Some Historical \<and>
      rtrend (resolveMetricValue facility metric) =
        Some \<lparr>delta = 4, good = True, yearSpan = (2022, 2024)\<rparr>)"
  by (simp add: resolve_defs)

theorem resolve_prefers_current_witness:
  "current_value (dash_sample (Some 55) sample_history) mobility_metric = Some 55 \<and>
   rsource (resolveMetricValue (dash_sample (Some 55) sample_history) mobility_metric) = Some Current \<and>
   rvalue (resolveMetricValue (dash_sample (Some 55) sample_history) mobility_metric) = Some 55 \<and>
   current_value (dash_sample None sample_history) mobility_metric = None \<and>
   higherIsBetter mobility_metric \<and>
   rvalue (resolveMetricValue (dash_sample None sample_history) mobility_metric) = Some 14 \<and>
   rsource (resolveMetricValue (dash_sample None sample_history) mobility_metric) = Some Historical \<and>
   rtrend (resolveMetricValue (dash_sample None sample_history) mobility_metric) =
     Some \<lparr>delta = 4, good = True, yearSpan = (2022, 2024)\<rparr>"
  using resolve_prefers_current [of "dash_sample (Some 55) sample_history" mobility_metric 55]
    resolve_prefers_current [of "dash_sample None sample_history" mobility_metric 0
      "[(''mobility_at_discharge'', 10)]" "[(''mobility_at_discharge'', 14)]"]
  by (simp add: current_value_def dash_sample_def mobility_metric_def sample_history_def)


text \<open>
  C5, as stated, fails: with the metric present in 2022 and missing from the latest
  timeline year 2024, a facility without a current value resolves to no value and no
  source.
\<close>

theorem fallback_skips_to_none_counterexample:
  "current_value (dash_sample None gap_history) mobility_metric = None \<and>
   metric_at gap_history 2022 (historicalKey mobility_metric) = Some 10 \<and>
   rsource (resolveMetricValue (dash_sample None gap_history) mobility_metric) = None \<and>
   rvalue (resolveMetricValue (dash_sample None gap_history) mobility_metric) = None"
  by (simp add: current_value_def dash_sample_def mobility_metric_def gap_history_def resolve_defs)


text \<open>
  C5, amended.  For a facility without a current value and with a non-empty timeline, the
  resolver reads the metric from the latest timeline year only: when that year holds the
  metric, the result is that value with source "historical"; when it does not, there is
  no value and no source.  A trend is computed whenever the timeline has at least two
  years and the metric is present in the earliest and in the latest of them.
\<close>

theorem resolve_falls_back_to_latest_year:
  assumes "current_value facility metric = None"
    and "dhistorical_metrics facility = Some history"
    and "history \<noteq> []"
  shows "last (history_years facility) \<in> fst ` set history \<and>
         (\<forall>y\<in>fst ` set history. hd (history_years facility) \<le> y \<and> y \<le> last (history_years facility)) \<and>
         (case metric_at history (last (history_years facility)) (historicalKey metric) of
            Some v \<Rightarrow>
              rvalue (resolveMetricValue facility metric) = Some v \<and>
              rsource (resolveMetricValue facility metric) = Some Historical \<and>
              historicalLatestYear (resolveMetricValue facility metric)
                = Some (last (history_years facility))
          | None \<Rightarrow>
              rvalue (resolveMetricValue facility metric) = None \<and>
              rsource (resolveMetricValue facility metric) = None) \<and>
         (\<forall>early late.
            2 \<le> length (history_years facility) \<and>
            metric_at history (hd (history_years facility)) (historicalKey metric) = Some early \<and>
            metric_at history (last (history_years facility)) (historicalKey metric) = Some late \<longrightarrow>
            rtrend (resolveMetricValue facility metric) =
              Some \<lparr>delta = late - early,
                    good = (if higherIsBetter metric then late - early > 0 else \<not> late - early > 0),
                    yearSpan = (hd (history_years facility), last (history_years facility))\<rparr>)"
proof -
  have ys: "set (history_years facility) = fst ` set history"
    using assms(2) by (simp add: history_years_set)
  then have ne: "history_years facility \<noteq> []" using assms(3) by auto
  have a: "last (history_years facility) \<in> fst ` set history"
    using ne ys last_in_set by blast
  have b: "\<forall>y\<in>fst ` set history. hd (history_years facility) \<le> y \<and> y \<le> last (history_years facility)"
    using ys history_years_sorted [of facility] sorted_hd_least sorted_last_greatest by blast
  have h: "(case dhistorical_metrics facility of None \<Rightarrow> [] | Some h \<Rightarrow> h) = history"
    using assms(2) by simp
  have hl: "historical_latest facility metric =
            (case metric_at history (last (history_years facility)) (historicalKey metric) of
               None \<Rightarrow> None | Some v \<Rightarrow> Some (v, last (history_years facility)))"
    using ne h by (simp add: historical_latest_def Let_def)
  have c: "(case metric_at history (last (history_years facility)) (historicalKey metric) of
            Some v \<Rightarrow>
              rvalue (resolveMetricValue facility metric) = Some v \<and>
              rsource (resolveMetricValue facility metric) = Some Historical \<and>
              historicalLatestYear (resolveMetricValue facility metric)
                = Some (last (history_years facility))
          | None \<Rightarrow>
              rvalue (resolveMetricValue facility metric) = None \<and>
              rsource (resolveMetricValue facility metric) = None)"
    using assms(1) hl by (simp add: resolveMetricValue_def Let_def split: option.splits)
  have d: "rtrend (resolveMetricValue facility metric) =
              Some \<lparr>delta = late - early,
                    good = (if higherIsBetter metric then late - early > 0 else \<not> late - early > 0),
                    yearSpan = (hd (history_years facility), last (history_years facility))\<rparr>"
    if "2 \<le> length (history_years facility)"
      and "metric_at history (hd (history_years facility)) (historicalKey metric) = Some early"
      and "metric_at history (last (history_years facility)) (historicalKey metric) = Some late"
    for early late
    using that hl h by (simp add: resolveMetricValue_def Let_def)
  show ?thesis using a b c d by blast
qed


theorem resolve_falls_back_to_latest_year_witness:
  "current_value (dash_sample None sample_history) mobility_metric = None \<and>
   dhistorical_metrics (dash_sample None sample_history) = Some sample_history \<and>
   sample_history \<noteq> [] \<and>
   hd (history_years (dash_sample None sample_history)) = 2022 \<and>
   last (history_years (dash_sample None sample_history)) = 2024 \<and>
   2 \<le> length (history_years (dash_sample None sample_history)) \<and>
   metric_at sample_history 2022 (historicalKey mobility_metric) = Some 10 \<and>
   metric_at sample_history 2024 (historicalKey mobility_metric) = Some 14 \<and>
   rvalue (resolveMetricValue (dash_sample None sample_history) mobility_metric) = Some 14 \<and>
   rsource (resolveMetricValue (dash_sample None sample_history) mobility_metric) = Some Historical \<and>
   rtrend (resolveMetricValue (dash_sample None sample_history) mobility_metric) =
     Some \<lparr>delta = 4, good = True, yearSpan = (2022, 2024)\<rparr>"
proof -
  have a: "current_value (dash_sample None sample_history) mobility_metric = None"
    by (simp add: current_value_def dash_sample_def mobility_metric_def)
  have b: "dhistorical_metrics (dash_sample None sample_history) = Some sample_history"
    by (simp add: dash_sample_def)
  have c: "sample_history \<noteq> []" by (simp add: sample_history_def)
  have y: "hd (history_years (dash_sample None sample_history)) = 2022"
    "last (history_years (dash_sample None sample_history)) = 2024"
    "2 \<le> length (history_years (dash_sample None sample_history))"
    by (simp_all add: history_years_def dash_sample_def sample_history_def)
  have m: "metric_at sample_history 2022 (historicalKey mobility_metric) = Some 10"
    "metric_at sample_history 2024 (historicalKey mobility_metric) = Some 14"
    "higherIsBetter mobility_metric"
    by (simp_all add: metric_at_def sample_history_def mobility_metric_def)
  show ?thesis
    using resolve_falls_back_to_latest_year [OF a b c] a b c y m by simp
qed

end
